theory Spec2Isabelle
  imports Main "HOL-Library.AList"
begin

section \<open>Library functions the registry calls\<close>

subsection \<open>strings.Split\<close>

text \<open>
  Go's \<^verbatim>\<open>strings.Split(s, sep)\<close> for a one-byte separator: look for the first
  occurrence of the separator, emit what stands before it, go on behind it; the rest
  (possibly empty) is the last part. A string without the separator, the empty string
  included, gives exactly one part.
\<close>

function Split :: "char \<Rightarrow> string \<Rightarrow> string list" where
  "Split sep s =
     (case dropWhile (\<lambda>c. c \<noteq> sep) s of
        [] \<Rightarrow> [s]
      | _ # rest \<Rightarrow> takeWhile (\<lambda>c. c \<noteq> sep) s # Split sep rest)"
  by pat_completeness auto
termination
proof (relation "measure (\<lambda>(sep, s). length s)")
  show "wf (measure (\<lambda>(sep, s). length s))"
    by simp
next
  fix sep :: char and s :: string and x rest
  assume "dropWhile (\<lambda>c. c \<noteq> sep) s = x # rest"
  then have "length rest < length (dropWhile (\<lambda>c. c \<noteq> sep) s)"
    by simp
  also have "\<dots> \<le> length s"
    by (rule length_dropWhile_le)
  finally show "((sep, rest), (sep, s)) \<in> measure (\<lambda>(sep, s). length s)"
    by simp
qed

declare Split.simps [simp del]

subsection \<open>regexp.MatchString for anchored patterns\<close>

text \<open>
  The syntax tree of a pattern, with the operators of Go's \<^verbatim>\<open>regexp/syntax\<close> that the
  three patterns of the registry use. A character class is a list of inclusive ranges
  of bytes. All three patterns are anchored at both ends (\<^verbatim>\<open>^...$\<close>), and Go's \<^verbatim>\<open>$\<close>
  without the multi-line flag matches at the end of the text only, so \<^verbatim>\<open>MatchString\<close>
  holds exactly when the whole string is in the language of the tree. The classes are
  ASCII, so matching bytes is matching runes: a byte of a multi-byte rune is in no class.
\<close>

datatype regexp =
    OpNoMatch
  | OpEmptyMatch
  | OpCharClass "(char \<times> char) list"
  | OpConcat regexp regexp
  | OpAlternate regexp regexp
  | OpStar regexp
  | OpPlus regexp
  | OpQuest regexp

fun in_class :: "(char \<times> char) list \<Rightarrow> char \<Rightarrow> bool" where
  "in_class [] c = False"
| "in_class ((lo, hi) # rs) c =
     ((of_char lo \<le> (of_char c :: nat) \<and> (of_char c :: nat) \<le> of_char hi) \<or> in_class rs c)"

fun nullable :: "regexp \<Rightarrow> bool" where
  "nullable OpNoMatch = False"
| "nullable OpEmptyMatch = True"
| "nullable (OpCharClass rs) = False"
| "nullable (OpConcat r s) = (nullable r \<and> nullable s)"
| "nullable (OpAlternate r s) = (nullable r \<or> nullable s)"
| "nullable (OpStar r) = True"
| "nullable (OpPlus r) = nullable r"
| "nullable (OpQuest r) = True"

text \<open>What is left to match once the byte \<open>c\<close> has been read.\<close>

fun deriv :: "char \<Rightarrow> regexp \<Rightarrow> regexp" where
  "deriv c OpNoMatch = OpNoMatch"
| "deriv c OpEmptyMatch = OpNoMatch"
| "deriv c (OpCharClass rs) = (if in_class rs c then OpEmptyMatch else OpNoMatch)"
| "deriv c (OpConcat r s) =
     (if nullable r then OpAlternate (OpConcat (deriv c r) s) (deriv c s)
      else OpConcat (deriv c r) s)"
| "deriv c (OpAlternate r s) = OpAlternate (deriv c r) (deriv c s)"
| "deriv c (OpStar r) = OpConcat (deriv c r) (OpStar r)"
| "deriv c (OpPlus r) = OpConcat (deriv c r) (OpStar r)"
| "deriv c (OpQuest r) = deriv c r"

fun MatchString :: "regexp \<Rightarrow> string \<Rightarrow> bool" where
  "MatchString r [] = nullable r"
| "MatchString r (c # cs) = MatchString (deriv c r) cs"

text \<open>The bytes that occur in some class of a pattern.\<close>

fun alphabet :: "regexp \<Rightarrow> char \<Rightarrow> bool" where
  "alphabet OpNoMatch c = False"
| "alphabet OpEmptyMatch c = False"
| "alphabet (OpCharClass rs) c = in_class rs c"
| "alphabet (OpConcat r s) c = (alphabet r c \<or> alphabet s c)"
| "alphabet (OpAlternate r s) c = (alphabet r c \<or> alphabet s c)"
| "alphabet (OpStar r) c = alphabet r c"
| "alphabet (OpPlus r) c = alphabet r c"
| "alphabet (OpQuest r) c = alphabet r c"

text \<open>A pattern that visibly matches nothing.\<close>

fun void :: "regexp \<Rightarrow> bool" where
  "void OpNoMatch = True"
| "void (OpConcat r s) = (void r \<or> void s)"
| "void (OpAlternate r s) = (void r \<and> void s)"
| "void _ = False"

subsection \<open>The three patterns\<close>

definition lower :: "(char \<times> char) list" where
  "lower = [(CHR ''a'', CHR ''z'')]"

definition upper :: "(char \<times> char) list" where
  "upper = [(CHR ''A'', CHR ''Z'')]"

definition digit :: "(char \<times> char) list" where
  "digit = [(CHR ''0'', CHR ''9'')]"

text \<open>\<^verbatim>\<open>^[a-z][a-z\d_]+$\<close>\<close>

definition groupRegexp :: regexp where
  "groupRegexp =
     OpConcat (OpCharClass lower)
              (OpPlus (OpCharClass (lower @ digit @ [(CHR ''_'', CHR ''_'')])))"

text \<open>\<^verbatim>\<open>^v([a-z\d]+)?\d$\<close>\<close>

definition groupVersionRegexp :: regexp where
  "groupVersionRegexp =
     OpConcat (OpCharClass [(CHR ''v'', CHR ''v'')])
              (OpConcat (OpQuest (OpPlus (OpCharClass (lower @ digit))))
                        (OpCharClass digit))"

text \<open>\<^verbatim>\<open>^[A-Z][A-Za-z\d]+$\<close>\<close>

definition kindRegexp :: regexp where
  "kindRegexp =
     OpConcat (OpCharClass upper)
              (OpPlus (OpCharClass (upper @ lower @ digit)))"

section \<open>Data model of the registry\<close>

text \<open>
  \<^verbatim>\<open>pbresource.Type\<close>, \<^verbatim>\<open>pbresource.Tenancy\<close>, \<^verbatim>\<open>pbresource.ID\<close> and
  \<^verbatim>\<open>pbresource.Resource\<close>. A pointer that may be nil is an \<open>option\<close>. The payload of
  a resource is opaque here.
\<close>

record Type =
  Group :: string
  GroupVersion :: string
  Kind :: string

record Tenancy =
  Partition :: string
  Namespace :: string
  PeerName :: string

record ID =
  IDType :: "Type option"
  IDTenancy :: Tenancy
  Name :: string
  Uid :: string

record Resource =
  Id :: ID
  Version :: string
  Data :: string

text \<open>
  Go's \<^verbatim>\<open>error\<close> values, as far as they are told apart: the permission-denied errors
  of the \<^verbatim>\<open>acl\<close> package, and everything else. The constructor \<open>ErrNeedData\<close> is
  modelled from the spec: it is how a read hook, which is handed the identity only,
  says that its policy has to inspect the stored data. The registry never looks into
  an error.
\<close>

datatype error =
    ErrPermissionDenied string
  | ErrNeedData
  | ErrOther string

text \<open>
  The \<^verbatim>\<open>acl\<close> package is not among the sources. Of an authorizer the registry uses
  \<^verbatim>\<open>ToAllowAuthorizer().OperatorReadAllowed(ctx)\<close> and \<^verbatim>\<open>OperatorWriteAllowed(ctx)\<close>
  only, so an authorizer is these two decisions; \<open>None\<close> is Go's nil error.
  \<open>empty_AuthorizerContext\<close> is \<^verbatim>\<open>&acl.AuthorizerContext{}\<close>.
\<close>

record AuthorizerContext =
  Peer :: string

definition empty_AuthorizerContext :: AuthorizerContext where
  "empty_AuthorizerContext = \<lparr>Peer = []\<rparr>"

record Authorizer =
  OperatorReadAllowed :: "AuthorizerContext \<Rightarrow> error option"
  OperatorWriteAllowed :: "AuthorizerContext \<Rightarrow> error option"

text \<open>
  The hooks are function values. A mutation hook changes the resource it is given, so
  it returns the resource with the error.
\<close>

type_synonym ValidationHook = "Resource \<Rightarrow> error option"
type_synonym MutationHook = "Resource \<Rightarrow> Resource \<times> error option"
type_synonym ACLAuthorizeReadHook = "Authorizer \<Rightarrow> AuthorizerContext \<Rightarrow> ID \<Rightarrow> error option"
type_synonym ACLAuthorizeWriteHook = "Authorizer \<Rightarrow> AuthorizerContext \<Rightarrow> Resource \<Rightarrow> error option"
type_synonym ACLAuthorizeListHook = "Authorizer \<Rightarrow> AuthorizerContext \<Rightarrow> error option"

record ACLHooks =
  Read :: "ACLAuthorizeReadHook option"
  Write :: "ACLAuthorizeWriteHook option"
  List :: "ACLAuthorizeListHook option"

text \<open>
  Modelled from the spec: the type \<^verbatim>\<open>Scope\<close>, which is declared outside the sources. It
  has the three scopes of the spec's data model; \<open>ScopeUndefined\<close> is the zero value
  that a \<^verbatim>\<open>Registration\<close> literal without a \<^verbatim>\<open>Scope\<close> carries.
\<close>

datatype Scope = ScopeUndefined | ScopeCluster | ScopePartition | ScopeNamespace

text \<open>
  \<^verbatim>\<open>Registration\<close>. \<open>Proto\<close> is the name of the protobuf message type, \<open>None\<close> for a
  nil interface. \<open>ACLs\<close> is a pointer: the model keeps the struct it points to by value.
  \<^verbatim>\<open>Register\<close> writes through that pointer only to fill fields that are nil, so the
  hooks a stored registration holds are the ones computed here.
\<close>

record Registration =
  Type :: "Type option"
  Proto :: "string option"
  ACLs :: "ACLHooks option"
  Validate :: "ValidationHook option"
  Mutate :: "MutationHook option"
  Scope :: Scope

text \<open>
  A panic carries its message. \<^verbatim>\<open>fmt.Sprintf\<close> with a \<^verbatim>\<open>%q\<close> verb is kept as the format
  string and its arguments, unformatted. Reading a field through a nil \<^verbatim>\<open>*Type\<close> is
  the runtime's nil dereference.
\<close>

datatype panic =
    Panic string
  | PanicSprintf string "string list"
  | NilPointerDereference

text \<open>
  \<^verbatim>\<open>TypeRegistry\<close>: the map of registrations keyed by GVK, as an association list
  (\<^verbatim>\<open>m[k] = v\<close> is \<^const>\<open>AList.update\<close>, lookup is \<^const>\<open>map_of\<close>). The lock is
  left out: every function below runs under it from start to end.
\<close>

record TypeRegistry =
  registrations :: "(string \<times> Registration) list"

section \<open>The registry\<close>

text \<open>\<^verbatim>\<open>fmt.Sprintf("%s.%s.%s", Group, GroupVersion, Kind)\<close>: \<^verbatim>\<open>%s\<close> of a string is the string.\<close>

definition ToGVK :: "Type \<Rightarrow> string" where
  "ToGVK resourceType =
     Group resourceType @ ''.'' @ GroupVersion resourceType @ ''.'' @ Kind resourceType"

definition ParseGVK :: "string \<Rightarrow> error + Type" where
  "ParseGVK gvk =
     (let parts = Split CHR ''.'' gvk in
      if length parts \<noteq> 3
      then Inl (ErrOther (''GVK string must be in the form <Group>.<GroupVersion>.<Kind>, got: '' @ gvk))
      else Inr \<lparr>Group = parts ! 0, GroupVersion = parts ! 1, Kind = parts ! 2\<rparr>)"

text \<open>The hooks that \<^verbatim>\<open>Register\<close> installs for those not provided.\<close>

definition default_Read :: ACLAuthorizeReadHook where
  "default_Read = (\<lambda>authz authzContext id. OperatorReadAllowed authz authzContext)"

definition default_Write :: ACLAuthorizeWriteHook where
  "default_Write = (\<lambda>authz authzContext res. OperatorWriteAllowed authz authzContext)"

definition default_List :: ACLAuthorizeListHook where
  "default_List = (\<lambda>authz authzContext. OperatorReadAllowed authz empty_AuthorizerContext)"

definition default_Validate :: ValidationHook where
  "default_Validate = (\<lambda>resource. None)"

definition default_Mutate :: MutationHook where
  "default_Mutate = (\<lambda>resource. (resource, None))"

definition Register :: "TypeRegistry \<Rightarrow> Registration \<Rightarrow> panic + TypeRegistry" where
  "Register r registration =
     (case Type registration of
        None \<Rightarrow> Inl NilPointerDereference
      | Some typ \<Rightarrow>
          if Group typ = [] \<or> GroupVersion typ = [] \<or> Kind typ = []
          then Inl (Panic ''type field(s) cannot be empty'')
          else if \<not> MatchString groupRegexp (Group typ)
          then Inl (PanicSprintf ''Type.Group must be in snake_case. Got: %q'' [Group typ])
          else if \<not> MatchString groupVersionRegexp (GroupVersion typ)
          then Inl (PanicSprintf
            ''Type.GroupVersion must be lowercase, start with `v`, and end with a number (e.g. `v2` or `v1alpha1`). Got: %q''
            [Group typ])
          else if \<not> MatchString kindRegexp (Kind typ)
          then Inl (PanicSprintf ''Type.Kind must be in PascalCase. Got: %q'' [Kind typ])
          else
            let key = ToGVK typ in
            if map_of (registrations r) key \<noteq> None
            then Inl (PanicSprintf ''resource type %s already registered'' [key])
            else
              let acls0 = (case ACLs registration of
                             None \<Rightarrow> \<lparr>Read = None, Write = None, List = None\<rparr>
                           | Some a \<Rightarrow> a);
                  acls1 = (if Read acls0 = None then acls0\<lparr>Read := Some default_Read\<rparr> else acls0);
                  acls2 = (if Write acls1 = None then acls1\<lparr>Write := Some default_Write\<rparr> else acls1);
                  acls3 = (if List acls2 = None then acls2\<lparr>List := Some default_List\<rparr> else acls2);
                  reg1 = registration\<lparr>ACLs := Some acls3\<rparr>;
                  reg2 = (if Validate reg1 = None then reg1\<lparr>Validate := Some default_Validate\<rparr> else reg1);
                  reg3 = (if Mutate reg2 = None then reg2\<lparr>Mutate := Some default_Mutate\<rparr> else reg2)
              in Inr (r\<lparr>registrations := AList.update key reg3 (registrations r)\<rparr>))"

text \<open>
  \<^verbatim>\<open>NewRegistry\<close>. The variable \<^verbatim>\<open>TypeV1Tombstone\<close> is declared outside the sources and is
  a parameter here. A panic of the \<^verbatim>\<open>Register\<close> call is a panic of \<^verbatim>\<open>NewRegistry\<close>.
\<close>

definition NewRegistry :: "Type \<Rightarrow> panic + TypeRegistry" where
  "NewRegistry TypeV1Tombstone =
     Register \<lparr>registrations = []\<rparr>
       \<lparr>Type = Some TypeV1Tombstone, Proto = Some ''Tombstone'', ACLs = None,
        Validate = None, Mutate = None, Scope = ScopeUndefined\<rparr>"

text \<open>\<^verbatim>\<open>Registration{}\<close>, which \<^verbatim>\<open>Resolve\<close> returns with \<^verbatim>\<open>false\<close>.\<close>

definition zero_Registration :: Registration where
  "zero_Registration =
     \<lparr>Type = None, Proto = None, ACLs = None, Validate = None, Mutate = None,
      Scope = ScopeUndefined\<rparr>"

definition Resolve :: "TypeRegistry \<Rightarrow> Type \<Rightarrow> Registration \<times> bool" where
  "Resolve r typ =
     (case map_of (registrations r) (ToGVK typ) of
        Some registration \<Rightarrow> (registration, True)
      | None \<Rightarrow> (zero_Registration, False))"

text \<open>
  \<^verbatim>\<open>Types\<close> ranges over the map in an order Go leaves open; the model lists the values
  in the order of the association list, and nothing below depends on the order.
\<close>

definition Types :: "TypeRegistry \<Rightarrow> Registration list" where
  "Types r = map snd (registrations r)"

text \<open>
  A run of \<^verbatim>\<open>Register\<close> calls on one registry, stopped by the first panic. The states
  it returns over all lists of registrations are the states a registry goes through
  after \<^verbatim>\<open>NewRegistry\<close>: a call that panics leaves the map as it was.
\<close>

fun RegisterAll :: "TypeRegistry \<Rightarrow> Registration list \<Rightarrow> panic + TypeRegistry" where
  "RegisterAll r [] = Inr r"
| "RegisterAll r (registration # rest) =
     (case Register r registration of
        Inl p \<Rightarrow> Inl p
      | Inr r' \<Rightarrow> RegisterAll r' rest)"

section \<open>The read pipeline\<close>

text \<open>
  Modelled from the spec: the read endpoint of the resource service. Of the endpoint the
  sources hold the test only, so every definition of this section follows sections 4.2
  to 4.4, 6 and 7 of the spec, on top of the registry above. First the error classes a
  caller sees, an error of a class with its message, and the two backend read modes.
\<close>

datatype Code = InvalidArgument | NotFound | PermissionDenied | Unavailable | Internal

datatype Status = Status Code string

datatype ReadConsistency = EventualConsistency | StrongConsistency

text \<open>
  Modelled from the spec: the storage backend's read contract,
  \<^verbatim>\<open>Read(identity, consistency) -> (record, error{NotFound, Unavailable, Internal})\<close>.
\<close>

datatype storage_error = ErrNotFound | ErrUnavailable string | ErrInternal string

text \<open>
  Modelled from the spec: a read request carries an identity, which may be missing, and
  a consistency preference, \<open>None\<close> when the caller states none.
\<close>

record ReadRequest =
  ReqId :: "ID option"
  Consistency :: "ReadConsistency option"

text \<open>
  Modelled from the spec: what the pipeline is handed. \<open>ReadWithData\<close> is the final
  authorization decision of a data-dependent read ACL, taken over the fetched record:
  the read hook of the registry sees the identity only.
\<close>

record Server =
  Registry :: TypeRegistry
  Backend :: "ReadConsistency \<Rightarrow> ID \<Rightarrow> storage_error + Resource"
  ReadWithData :: "Registration \<Rightarrow> Authorizer \<Rightarrow> AuthorizerContext \<Rightarrow> Resource \<Rightarrow> error option"

text \<open>
  Modelled from the spec: the consistency selector of section 4.4. Unspecified means
  eventual; a stated preference goes to the backend as it is.
\<close>

definition readConsistencyFrom :: "ReadRequest \<Rightarrow> ReadConsistency" where
  "readConsistencyFrom req =
     (case Consistency req of None \<Rightarrow> EventualConsistency | Some c \<Rightarrow> c)"

text \<open>
  Modelled from the spec: the tenancy validator of section 4.2. It rejects a populated
  field that the scope forbids, and nothing else; the message names the rule.
\<close>

definition validateTenancy :: "ID \<Rightarrow> Scope \<Rightarrow> string option" where
  "validateTenancy ident scope =
     (case scope of
        ScopeCluster \<Rightarrow>
          if Partition (IDTenancy ident) \<noteq> [] then Some ''cluster scoped resource cannot have a partition''
          else if Namespace (IDTenancy ident) \<noteq> [] then Some ''cluster scoped resource cannot have a namespace''
          else None
      | ScopePartition \<Rightarrow>
          if Namespace (IDTenancy ident) \<noteq> [] then Some ''partition scoped resource cannot have a namespace''
          else None
      | _ \<Rightarrow> None)"

text \<open>Modelled from the spec: the messages of the two errors of step 3.\<close>

definition gv_mismatch_message :: "string \<Rightarrow> string \<Rightarrow> string" where
  "gv_mismatch_message requested registered =
     ''resource was requested with GroupVersion '' @ requested @
     '' but type is registered as '' @ registered"

definition not_registered_message :: "string \<Rightarrow> string" where
  "not_registered_message gvk = ''resource type '' @ gvk @ '' not registered''"

text \<open>
  Modelled from the spec: type resolution, step 3 of section 4.3. Resolution is by the
  full type key. When it fails, a registration of the same group and kind under a
  different group version tells the two errors apart.
\<close>

definition other_GroupVersion :: "TypeRegistry \<Rightarrow> Type \<Rightarrow> Type option" where
  "other_GroupVersion r typ =
     find (\<lambda>t. Group t = Group typ \<and> Kind t = Kind typ \<and> GroupVersion t \<noteq> GroupVersion typ)
          (List.map_filter Type (Types r))"

definition resolveType :: "TypeRegistry \<Rightarrow> Type \<Rightarrow> Status + Registration" where
  "resolveType r typ =
     (case Resolve r typ of
        (reg, True) \<Rightarrow> Inr reg
      | (_, False) \<Rightarrow>
          (case other_GroupVersion r typ of
             Some t \<Rightarrow> Inl (Status InvalidArgument
                          (gv_mismatch_message (GroupVersion typ) (GroupVersion t)))
           | None \<Rightarrow> Inl (Status InvalidArgument (not_registered_message (ToGVK typ)))))"

text \<open>
  Modelled from the spec: steps 1 to 3 of section 4.3. The tenancy check needs the scope
  of the resolved registration, so it runs once the type is resolved; a type that does
  not resolve ends in one of the two errors of step 3.
\<close>

definition validateReadRequest :: "TypeRegistry \<Rightarrow> ReadRequest \<Rightarrow> Status + (ID \<times> Registration)" where
  "validateReadRequest r req =
     (case ReqId req of
        None \<Rightarrow> Inl (Status InvalidArgument ''id is required'')
      | Some ident \<Rightarrow>
          (case IDType ident of
             None \<Rightarrow> Inl (Status InvalidArgument ''id.type is required'')
           | Some typ \<Rightarrow>
               if Name ident = [] then Inl (Status InvalidArgument ''id.name is required'')
               else
                 (case resolveType r typ of
                    Inl e \<Rightarrow> Inl e
                  | Inr reg \<Rightarrow>
                      (case validateTenancy ident (Scope reg) of
                         Some msg \<Rightarrow> Inl (Status InvalidArgument msg)
                       | None \<Rightarrow> Inr (ident, reg)))))"

text \<open>
  Modelled from the spec: the first phase of step 4, the read hook of the registration
  on the identity. A stored registration always has one; a registration without it is
  an internal error here.
\<close>

definition readHook :: "Registration \<Rightarrow> Authorizer \<Rightarrow> AuthorizerContext \<Rightarrow> ID \<Rightarrow> error option" where
  "readHook reg authz authzContext ident =
     (case ACLs reg of
        None \<Rightarrow> Some (ErrOther ''no read hook'')
      | Some acls \<Rightarrow>
          (case Read acls of
             None \<Rightarrow> Some (ErrOther ''no read hook'')
           | Some hook \<Rightarrow> hook authz authzContext ident))"

text \<open>
  Modelled from the spec: the read operation, steps 1 to 6 of section 4.3. The result is
  paired with the calls made to the backend, each with the consistency and the identity
  it was given. A denial on the identity alone ends the request before any fetch. A
  hook that needs the data lets the fetch run first: a miss is \<open>NotFound\<close>, and the
  final decision is taken on the record that was found. A backend error keeps its
  class and its message.
\<close>

definition Server_Read ::
  "Server \<Rightarrow> Authorizer \<Rightarrow> AuthorizerContext \<Rightarrow> ReadRequest \<Rightarrow>
   (ReadConsistency \<times> ID) list \<times> (Status + Resource)" where
  "Server_Read s authz authzContext req =
     (case validateReadRequest (Registry s) req of
        Inl e \<Rightarrow> ([], Inl e)
      | Inr (ident, reg) \<Rightarrow>
          (case readHook reg authz authzContext ident of
             Some (ErrPermissionDenied msg) \<Rightarrow> ([], Inl (Status PermissionDenied msg))
           | Some (ErrOther msg) \<Rightarrow> ([], Inl (Status Internal msg))
           | pre \<Rightarrow>
               let consistency = readConsistencyFrom req;
                   calls = [(consistency, ident)]
               in (case Backend s consistency ident of
                     Inl ErrNotFound \<Rightarrow> (calls, Inl (Status NotFound ''resource not found''))
                   | Inl (ErrUnavailable msg) \<Rightarrow> (calls, Inl (Status Unavailable msg))
                   | Inl (ErrInternal msg) \<Rightarrow> (calls, Inl (Status Internal msg))
                   | Inr resource \<Rightarrow>
                       if pre = Some ErrNeedData
                       then (case ReadWithData s reg authz authzContext resource of
                               None \<Rightarrow> (calls, Inr resource)
                             | Some (ErrPermissionDenied msg) \<Rightarrow>
                                 (calls, Inl (Status PermissionDenied msg))
                             | Some ErrNeedData \<Rightarrow>
                                 (calls, Inl (Status Internal ''read hook needs data it was given''))
                             | Some (ErrOther msg) \<Rightarrow> (calls, Inl (Status Internal msg)))
                       else (calls, Inr resource))))"

section \<open>Predicates of the statements\<close>

text \<open>A type key is valid when each component matches its pattern.\<close>

definition valid_Type :: "Type \<Rightarrow> bool" where
  "valid_Type typ =
     (MatchString groupRegexp (Group typ) \<and>
      MatchString groupVersionRegexp (GroupVersion typ) \<and>
      MatchString kindRegexp (Kind typ))"

text \<open>Every hook of a registration is there.\<close>

definition hooks_set :: "Registration \<Rightarrow> bool" where
  "hooks_set reg =
     ((case ACLs reg of
         None \<Rightarrow> False
       | Some acls \<Rightarrow> Read acls \<noteq> None \<and> Write acls \<noteq> None \<and> List acls \<noteq> None) \<and>
      Validate reg \<noteq> None \<and> Mutate reg \<noteq> None)"

text \<open>Some registration of the registry has the type key \<open>typ\<close>.\<close>

definition registered :: "TypeRegistry \<Rightarrow> Type \<Rightarrow> bool" where
  "registered r typ = list_ex (\<lambda>reg. Type reg = Some typ) (Types r)"

text \<open>
  What \<^verbatim>\<open>Register\<close> stores for a registration: the defaulting part of its body.
\<close>

definition with_defaults :: "Registration \<Rightarrow> Registration" where
  "with_defaults registration =
     (let acls0 = (case ACLs registration of
                     None \<Rightarrow> \<lparr>Read = None, Write = None, List = None\<rparr>
                   | Some a \<Rightarrow> a);
          acls1 = (if Read acls0 = None then acls0\<lparr>Read := Some default_Read\<rparr> else acls0);
          acls2 = (if Write acls1 = None then acls1\<lparr>Write := Some default_Write\<rparr> else acls1);
          acls3 = (if List acls2 = None then acls2\<lparr>List := Some default_List\<rparr> else acls2);
          reg1 = registration\<lparr>ACLs := Some acls3\<rparr>;
          reg2 = (if Validate reg1 = None then reg1\<lparr>Validate := Some default_Validate\<rparr> else reg1);
          reg3 = (if Mutate reg2 = None then reg2\<lparr>Mutate := Some default_Mutate\<rparr> else reg2)
      in reg3)"

text \<open>
  The invariant of the map: every entry is keyed by the GVK of its own valid type key,
  and has all its hooks.
\<close>

definition registry_inv :: "TypeRegistry \<Rightarrow> bool" where
  "registry_inv r =
     list_all (\<lambda>(key, reg). case Type reg of
                               None \<Rightarrow> False
                             | Some typ \<Rightarrow> valid_Type typ \<and> key = ToGVK typ \<and> hooks_set reg)
              (registrations r)"

text \<open>Example type keys: the tombstone's, as Consul declares it, and the demo kinds of the tests.\<close>

definition tombstone_Type :: Type where
  "tombstone_Type = \<lparr>Group = ''internal'', GroupVersion = ''v1'', Kind = ''Tombstone''\<rparr>"

definition TypeV2Artist :: Type where
  "TypeV2Artist = \<lparr>Group = ''demo'', GroupVersion = ''v2'', Kind = ''Artist''\<rparr>"

definition TypeV1Artist :: Type where
  "TypeV1Artist = \<lparr>Group = ''demo'', GroupVersion = ''v1'', Kind = ''Artist''\<rparr>"

definition TypeV1Executive :: Type where
  "TypeV1Executive = \<lparr>Group = ''demo'', GroupVersion = ''v1'', Kind = ''Executive''\<rparr>"

text \<open>A registration that sets nothing but its type and scope.\<close>

definition bare_Registration :: "Type \<Rightarrow> Scope \<Rightarrow> Registration" where
  "bare_Registration typ scope =
     \<lparr>Type = Some typ, Proto = None, ACLs = None, Validate = None, Mutate = None,
      Scope = scope\<rparr>"

text \<open>The registration of the tombstone kind with every default hook in place.\<close>

definition tombstone_Registration :: "Type \<Rightarrow> Registration" where
  "tombstone_Registration tomb =
     \<lparr>Type = Some tomb, Proto = Some ''Tombstone'',
      ACLs = Some \<lparr>Read = Some default_Read, Write = Some default_Write, List = Some default_List\<rparr>,
      Validate = Some default_Validate, Mutate = Some default_Mutate,
      Scope = ScopeUndefined\<rparr>"

text \<open>The registry that \<^verbatim>\<open>NewRegistry\<close> returns for that tombstone type key.\<close>

definition example_registry :: TypeRegistry where
  "example_registry =
     \<lparr>registrations = [(''internal.v1.Tombstone'', tombstone_Registration tombstone_Type)]\<rparr>"

text \<open>A read hook that lets every caller read every identity.\<close>

definition allow_all_Read :: ACLAuthorizeReadHook where
  "allow_all_Read = (\<lambda>authz authzContext id. None)"

text \<open>An authorizer whose caller has neither \<^verbatim>\<open>operator:read\<close> nor \<^verbatim>\<open>operator:write\<close>.\<close>

definition no_operator_Authorizer :: Authorizer where
  "no_operator_Authorizer =
     \<lparr>OperatorReadAllowed = (\<lambda>ctx. Some (ErrPermissionDenied ''operator:read'')),
      OperatorWriteAllowed = (\<lambda>ctx. Some (ErrPermissionDenied ''operator:write''))\<rparr>"

text \<open>A registration of the artist kind that brings a read hook and no list hook.\<close>

definition Artist_Registration :: Registration where
  "Artist_Registration =
     \<lparr>Type = Some TypeV2Artist, Proto = Some ''Artist'',
      ACLs = Some \<lparr>Read = Some allow_all_Read, Write = None, List = None\<rparr>,
      Validate = None, Mutate = None, Scope = ScopeNamespace\<rparr>"

text \<open>A read hook whose policy needs the stored data, as the record label's in the tests.\<close>

definition need_data_Read :: ACLAuthorizeReadHook where
  "need_data_Read = (\<lambda>authz authzContext id. Some ErrNeedData)"

definition TypeV1RecordLabel :: Type where
  "TypeV1RecordLabel = \<lparr>Group = ''demo'', GroupVersion = ''v1'', Kind = ''RecordLabel''\<rparr>"

definition RecordLabel_Registration :: Registration where
  "RecordLabel_Registration =
     \<lparr>Type = Some TypeV1RecordLabel, Proto = Some ''RecordLabel'',
      ACLs = Some \<lparr>Read = Some need_data_Read, Write = None, List = None\<rparr>,
      Validate = None, Mutate = None, Scope = ScopePartition\<rparr>"

text \<open>
  The registry after the tombstone, the artist, the executive (cluster scope, default
  hooks) and the record label (partition scope, data-dependent read hook) are registered.
\<close>

definition demo_registry :: TypeRegistry where
  "demo_registry =
     \<lparr>registrations =
        [(''internal.v1.Tombstone'', tombstone_Registration tombstone_Type),
         (''demo.v2.Artist'', with_defaults Artist_Registration),
         (''demo.v1.Executive'', with_defaults (bare_Registration TypeV1Executive ScopeCluster)),
         (''demo.v1.RecordLabel'', with_defaults RecordLabel_Registration)]\<rparr>"

text \<open>
  A server on that registry whose backend holds no record and cannot serve a strongly
  consistent read.
\<close>

definition demo_Server :: Server where
  "demo_Server =
     \<lparr>Registry = demo_registry,
      Backend = (\<lambda>consistency ident.
                   if consistency = StrongConsistency then Inl (ErrUnavailable ''no leader'')
                   else Inl ErrNotFound),
      ReadWithData = (\<lambda>reg authz authzContext resource. Some (ErrPermissionDenied ''label''))\<rparr>"

text \<open>An identity named \<^verbatim>\<open>X\<close> of the given type and tenancy, and a request for it.\<close>

definition demo_ID :: "Type \<Rightarrow> string \<Rightarrow> string \<Rightarrow> ID" where
  "demo_ID typ part ns =
     \<lparr>IDType = Some typ,
      IDTenancy = \<lparr>Partition = part, Namespace = ns, PeerName = ''local''\<rparr>,
      Name = ''X'', Uid = []\<rparr>"

definition TypeV2Unicorn :: Type where
  "TypeV2Unicorn = \<lparr>Group = ''demo'', GroupVersion = ''v2'', Kind = ''Unicorn''\<rparr>"

definition demo_Request :: "Type \<Rightarrow> string \<Rightarrow> string \<Rightarrow> ReadConsistency option \<Rightarrow> ReadRequest" where
  "demo_Request typ part ns consistency =
     \<lparr>ReqId = Some (demo_ID typ part ns), Consistency = consistency\<rparr>"

text \<open>A backend that holds a record at every identity.\<close>

definition holding_Backend :: "ReadConsistency \<Rightarrow> ID \<Rightarrow> storage_error + Resource" where
  "holding_Backend = (\<lambda>consistency ident. Inr \<lparr>Id = ident, Version = ''1'', Data = ''payload''\<rparr>)"

text \<open>An authorizer whose caller has \<^verbatim>\<open>operator:read\<close> and not \<^verbatim>\<open>operator:write\<close>.\<close>

definition read_only_Authorizer :: Authorizer where
  "read_only_Authorizer =
     \<lparr>OperatorReadAllowed = (\<lambda>ctx. None),
      OperatorWriteAllowed = (\<lambda>ctx. Some (ErrPermissionDenied ''operator:write''))\<rparr>"

text \<open>A resource to hand to the write, validation and mutation hooks.\<close>

definition tombstone_Resource :: Resource where
  "tombstone_Resource =
     \<lparr>Id = demo_ID tombstone_Type [] [], Version = [], Data = []\<rparr>"

section \<open>Properties of the library functions\<close>

lemma void_not_nullable: "void r \<Longrightarrow> \<not> nullable r"
  by (induction r) auto

lemma void_deriv: "void r \<Longrightarrow> void (deriv c r)"
  by (induction r) (auto dest: void_not_nullable)

lemma void_no_match: "void r \<Longrightarrow> \<not> MatchString r s"
  by (induction s arbitrary: r) (auto simp: void_not_nullable void_deriv)

lemma deriv_outside_alphabet: "\<not> alphabet r c \<Longrightarrow> void (deriv c r)"
  by (induction r) auto

lemma alphabet_deriv: "alphabet (deriv c r) d \<Longrightarrow> alphabet r d"
  by (induction r) (auto split: if_splits)

lemma MatchString_alphabet: "MatchString r s \<Longrightarrow> c \<in> set s \<Longrightarrow> alphabet r c"
proof (induction s arbitrary: r)
  case Nil
  then show ?case by simp
next
  case (Cons a s)
  from Cons.prems(1) have m: "MatchString (deriv a r) s"
    by simp
  have a: "alphabet r a"
  proof (rule ccontr)
    assume "\<not> alphabet r a"
    then have "void (deriv a r)"
      by (rule deriv_outside_alphabet)
    with m show False
      by (simp add: void_no_match)
  qed
  show ?case
  proof (cases "c = a")
    case True
    with a show ?thesis by simp
  next
    case False
    with Cons.prems(2) have "c \<in> set s" by simp
    with Cons.IH [OF m] have "alphabet (deriv a r) c" by simp
    then show ?thesis by (rule alphabet_deriv)
  qed
qed

lemma Split_no_sep: "sep \<notin> set s \<Longrightarrow> Split sep s = [s]"
proof -
  assume "sep \<notin> set s"
  then have "dropWhile (\<lambda>c. c \<noteq> sep) s = []"
    by auto
  then show ?thesis
    by (subst Split.simps) (simp only: list.case)
qed

lemma Split_append: "sep \<notin> set a \<Longrightarrow> Split sep (a @ sep # rest) = a # Split sep rest"
proof -
  assume a: "sep \<notin> set a"
  then have d: "dropWhile (\<lambda>c. c \<noteq> sep) (a @ sep # rest) = sep # rest"
    by (induction a) auto
  from a have t: "takeWhile (\<lambda>c. c \<noteq> sep) (a @ sep # rest) = a"
    by (induction a) auto
  show ?thesis
    by (subst Split.simps) (simp only: d t list.case)
qed

lemma length_Split: "length (Split sep s) = Suc (count_list s sep)"
proof (induction s rule: length_induct)
  case (1 s)
  show ?case
  proof (cases "sep \<in> set s")
    case False
    then show ?thesis
      by (simp add: Split_no_sep)
  next
    case True
    then obtain a rest where s: "s = a @ sep # rest" and a: "sep \<notin> set a"
      by (auto dest: split_list_first)
    from s have "length rest < length s" by simp
    with 1 have "length (Split sep rest) = Suc (count_list rest sep)" by blast
    with s a show ?thesis
      by (simp add: Split_append)
  qed
qed

lemma no_dot:
  "\<not> alphabet groupRegexp CHR ''.''" "\<not> alphabet groupVersionRegexp CHR ''.''" "\<not> alphabet kindRegexp CHR ''.''"
  by (simp_all add: groupRegexp_def groupVersionRegexp_def kindRegexp_def lower_def upper_def digit_def)

lemma valid_Type_no_dot:
  assumes "valid_Type typ"
  shows "CHR ''.'' \<notin> set (Group typ)" "CHR ''.'' \<notin> set (GroupVersion typ)" "CHR ''.'' \<notin> set (Kind typ)"
  using assms no_dot by (auto simp: valid_Type_def dest: MatchString_alphabet)

lemma Split_ToGVK:
  assumes "valid_Type typ"
  shows "Split CHR ''.'' (ToGVK typ) = [Group typ, GroupVersion typ, Kind typ]"
  using valid_Type_no_dot [OF assms]
  by (simp add: ToGVK_def Split_append Split_no_sep)

lemma ParseGVK_ToGVK: "valid_Type typ \<Longrightarrow> ParseGVK (ToGVK typ) = Inr typ"
  by (simp add: ParseGVK_def Split_ToGVK)

lemma ToGVK_inj: "valid_Type a \<Longrightarrow> valid_Type b \<Longrightarrow> ToGVK a = ToGVK b \<Longrightarrow> a = b"
  by (metis ParseGVK_ToGVK sum.inject(2))

section \<open>Properties of the registry\<close>

lemma not_match_empty:
  "\<not> MatchString groupRegexp []" "\<not> MatchString groupVersionRegexp []" "\<not> MatchString kindRegexp []"
  by (simp_all add: groupRegexp_def groupVersionRegexp_def kindRegexp_def)

lemma valid_Type_nonempty:
  "valid_Type typ \<Longrightarrow> Group typ \<noteq> [] \<and> GroupVersion typ \<noteq> [] \<and> Kind typ \<noteq> []"
  using not_match_empty by (auto simp: valid_Type_def)

lemma Register_ok:
  assumes "Type reg = Some typ" and "valid_Type typ"
    and "map_of (registrations r) (ToGVK typ) = None"
  shows "Register r reg =
    Inr (r\<lparr>registrations := AList.update (ToGVK typ) (with_defaults reg) (registrations r)\<rparr>)"
proof -
  from assms(2) have ne: "Group typ \<noteq> []" "GroupVersion typ \<noteq> []" "Kind typ \<noteq> []"
    by (simp_all add: valid_Type_nonempty)
  from assms(2) have m: "MatchString groupRegexp (Group typ)"
    "MatchString groupVersionRegexp (GroupVersion typ)" "MatchString kindRegexp (Kind typ)"
    by (simp_all add: valid_Type_def)
  show ?thesis
    unfolding Register_def with_defaults_def
    using assms(1,3) ne m
    by (simp add: Let_def)
qed

lemma Register_panics_iff:
  assumes "Type reg = Some typ"
  shows "(\<exists>p. Register r reg = Inl p) \<longleftrightarrow>
         \<not> valid_Type typ \<or> map_of (registrations r) (ToGVK typ) \<noteq> None"
proof (cases "valid_Type typ \<and> map_of (registrations r) (ToGVK typ) = None")
  case True
  then show ?thesis
    using Register_ok [OF assms, of r] by auto
next
  case False
  then have "\<exists>p. Register r reg = Inl p"
    using assms by (auto simp: Register_def valid_Type_def Let_def)
  with False show ?thesis by auto
qed

lemma Register_Inr:
  assumes "Register r reg = Inr r'"
  shows "\<exists>typ. Type reg = Some typ \<and> valid_Type typ \<and>
    map_of (registrations r) (ToGVK typ) = None \<and>
    r' = r\<lparr>registrations := AList.update (ToGVK typ) (with_defaults reg) (registrations r)\<rparr>"
proof (cases "Type reg")
  case None
  with assms show ?thesis by (simp add: Register_def)
next
  case (Some ty)
  from assms have "\<not> (\<exists>p. Register r reg = Inl p)" by auto
  with Register_panics_iff [OF Some, of r]
  have v: "valid_Type ty" and k: "map_of (registrations r) (ToGVK ty) = None"
    by auto
  from Register_ok [OF Some v k] assms Some v k show ?thesis by simp
qed

lemma hooks_set_with_defaults: "hooks_set (with_defaults reg)"
  by (auto simp: hooks_set_def with_defaults_def Let_def split: option.splits)

lemma Type_with_defaults: "Type (with_defaults reg) = Type reg"
  by (simp add: with_defaults_def Let_def)

lemma update_fresh: "map_of al k = None \<Longrightarrow> AList.update k v al = al @ [(k, v)]"
  by (induction al) (auto split: if_splits)

lemma Register_inv:
  assumes "registry_inv r" and "Register r reg = Inr r'"
  shows "registry_inv r'"
proof -
  from Register_Inr [OF assms(2)] obtain ty where
    "Type reg = Some ty" "valid_Type ty" "map_of (registrations r) (ToGVK ty) = None"
    "r' = r\<lparr>registrations := AList.update (ToGVK ty) (with_defaults reg) (registrations r)\<rparr>"
    by blast
  with assms(1) show ?thesis
    by (simp add: registry_inv_def update_fresh hooks_set_with_defaults Type_with_defaults)
qed

lemma RegisterAll_inv:
  "registry_inv r \<Longrightarrow> RegisterAll r regs = Inr r' \<Longrightarrow> registry_inv r'"
  by (induction regs arbitrary: r) (auto split: sum.splits dest: Register_inv)

lemma empty_inv: "registry_inv \<lparr>registrations = []\<rparr>"
  by (simp add: registry_inv_def)

lemma NewRegistry_inv: "NewRegistry tomb = Inr r \<Longrightarrow> registry_inv r"
  unfolding NewRegistry_def by (rule Register_inv [OF empty_inv])

lemma Register_keeps:
  assumes "Register r reg = Inr r'" and "map_of (registrations r) k = Some x"
  shows "map_of (registrations r') k = Some x"
proof -
  from Register_Inr [OF assms(1)] obtain ty where
    "map_of (registrations r) (ToGVK ty) = None"
    "r' = r\<lparr>registrations := AList.update (ToGVK ty) (with_defaults reg) (registrations r)\<rparr>"
    by blast
  with assms(2) show ?thesis
    by (auto simp: update_conv')
qed

lemma RegisterAll_keeps:
  "RegisterAll r regs = Inr r' \<Longrightarrow> map_of (registrations r) k = Some x \<Longrightarrow>
   map_of (registrations r') k = Some x"
  by (induction regs arbitrary: r) (auto split: sum.splits dest: Register_keeps)

lemma inv_lookup:
  assumes "registry_inv r" and "map_of (registrations r) k = Some reg"
  shows "\<exists>typ. Type reg = Some typ \<and> valid_Type typ \<and> k = ToGVK typ \<and> hooks_set reg"
proof -
  from assms(2) have "(k, reg) \<in> set (registrations r)"
    by (rule map_of_SomeD)
  with assms(1) show ?thesis
    by (auto simp: registry_inv_def list_all_iff split: option.splits)
qed

lemma inv_member:
  assumes "registry_inv r" and "reg \<in> set (Types r)"
  shows "\<exists>typ. Type reg = Some typ \<and> valid_Type typ \<and> hooks_set reg \<and>
               map_of (registrations r) (ToGVK typ) \<noteq> None"
proof -
  from assms(2) obtain k where m: "(k, reg) \<in> set (registrations r)"
    by (auto simp: Types_def)
  with assms(1) obtain ty where t: "Type reg = Some ty" "valid_Type ty" "k = ToGVK ty" "hooks_set reg"
    by (auto simp: registry_inv_def list_all_iff split: option.splits)
  from m have "k \<in> fst ` set (registrations r)" by force
  then have "map_of (registrations r) k \<noteq> None"
    by (simp add: map_of_eq_None_iff)
  with t show ?thesis by simp
qed

lemma registered_iff_key:
  assumes "registry_inv r" and "valid_Type typ"
  shows "registered r typ \<longleftrightarrow> map_of (registrations r) (ToGVK typ) \<noteq> None"
proof
  assume "registered r typ"
  then obtain reg where "reg \<in> set (Types r)" "Type reg = Some typ"
    by (auto simp: registered_def list_ex_iff)
  with inv_member [OF assms(1)] show "map_of (registrations r) (ToGVK typ) \<noteq> None"
    by fastforce
next
  assume "map_of (registrations r) (ToGVK typ) \<noteq> None"
  then obtain reg where l: "map_of (registrations r) (ToGVK typ) = Some reg"
    by auto
  with inv_lookup [OF assms(1)] obtain typ' where
    t: "Type reg = Some typ'" "valid_Type typ'" "ToGVK typ = ToGVK typ'"
    by blast
  with assms(2) have "typ' = typ"
    by (auto dest: ToGVK_inj)
  moreover from l have "reg \<in> set (Types r)"
    by (force simp: Types_def dest: map_of_SomeD)
  ultimately show "registered r typ"
    using t(1) by (auto simp: registered_def list_ex_iff)
qed

lemmas regexp_defs = groupRegexp_def groupVersionRegexp_def kindRegexp_def lower_def upper_def digit_def

lemma valid_examples:
  "valid_Type tombstone_Type" "valid_Type TypeV2Artist" "valid_Type TypeV1Artist" "valid_Type TypeV1Executive"
  by (simp_all add: valid_Type_def tombstone_Type_def TypeV2Artist_def TypeV1Artist_def TypeV1Executive_def regexp_defs)

lemma ToGVK_examples:
  "ToGVK tombstone_Type = ''internal.v1.Tombstone''"
  "ToGVK TypeV2Artist = ''demo.v2.Artist''"
  "ToGVK TypeV1Artist = ''demo.v1.Artist''"
  "ToGVK TypeV1Executive = ''demo.v1.Executive''"
  by (simp_all add: ToGVK_def tombstone_Type_def TypeV2Artist_def TypeV1Artist_def TypeV1Executive_def)

lemma NewRegistry_eq:
  assumes "valid_Type tomb"
  shows "NewRegistry tomb = Inr \<lparr>registrations = [(ToGVK tomb, tombstone_Registration tomb)]\<rparr>"
proof -
  have "Register \<lparr>registrations = []\<rparr>
       \<lparr>Type = Some tomb, Proto = Some ''Tombstone'', ACLs = None,
        Validate = None, Mutate = None, Scope = ScopeUndefined\<rparr> = 
     Inr (\<lparr>registrations = []\<rparr>\<lparr>registrations := AList.update (ToGVK tomb) (with_defaults \<lparr>Type = Some tomb, Proto = Some ''Tombstone'', ACLs = None,
        Validate = None, Mutate = None, Scope = ScopeUndefined\<rparr>) (registrations \<lparr>registrations = []\<rparr>)\<rparr>)"
    by (rule Register_ok) (simp_all add: assms)
  then show ?thesis
    by (simp add: NewRegistry_def with_defaults_def tombstone_Registration_def)
qed

lemma NewRegistry_example: "NewRegistry tombstone_Type = Inr example_registry"
  by (simp add: NewRegistry_eq valid_examples example_registry_def ToGVK_examples)

lemma Resolve_Some: "map_of (registrations r) (ToGVK t) = Some reg \<Longrightarrow> Resolve r t = (reg, True)"
  by (simp add: Resolve_def)

lemma Resolve_True_iff: "snd (Resolve r t) \<longleftrightarrow> map_of (registrations r) (ToGVK t) \<noteq> None"
  by (simp add: Resolve_def split: option.splits)

lemma Resolve_TrueD: "Resolve r t = (reg, True) \<Longrightarrow> map_of (registrations r) (ToGVK t) = Some reg"
  by (simp add: Resolve_def split: option.splits)

lemma reachable_inv:
  "NewRegistry tomb = Inr r0 \<Longrightarrow> RegisterAll r0 regs = Inr r \<Longrightarrow> registry_inv r"
  by (blast intro: RegisterAll_inv NewRegistry_inv)

lemma NewRegistry_valid: "NewRegistry tomb = Inr r0 \<Longrightarrow> valid_Type tomb"
  unfolding NewRegistry_def by (drule Register_Inr) auto

lemma with_defaults_eq:
  "with_defaults reg =
     reg\<lparr>ACLs := Some
            \<lparr>Read = Some (case ACLs reg of None \<Rightarrow> default_Read
                          | Some a \<Rightarrow> (case Read a of None \<Rightarrow> default_Read | Some h \<Rightarrow> h)),
             Write = Some (case ACLs reg of None \<Rightarrow> default_Write
                          | Some a \<Rightarrow> (case Write a of None \<Rightarrow> default_Write | Some h \<Rightarrow> h)),
             List = Some (case ACLs reg of None \<Rightarrow> default_List
                          | Some a \<Rightarrow> (case List a of None \<Rightarrow> default_List | Some h \<Rightarrow> h))\<rparr>,
          Validate := Some (case Validate reg of None \<Rightarrow> default_Validate | Some h \<Rightarrow> h),
          Mutate := Some (case Mutate reg of None \<Rightarrow> default_Mutate | Some h \<Rightarrow> h)\<rparr>"
proof (cases "ACLs reg")
  case None
  then show ?thesis
    by (cases reg) (auto simp: with_defaults_def Let_def split: option.splits)
next
  case (Some a)
  then show ?thesis
    by (cases reg; cases a) (auto simp: with_defaults_def Let_def split: option.splits)
qed

lemma Register_Resolve:
  assumes "Register r reg = Inr r'" and "Type reg = Some t"
  shows "Resolve r' t = (with_defaults reg, True)"
proof -
  from Register_Inr [OF assms(1)] assms(2)
  have "r' = r\<lparr>registrations := AList.update (ToGVK t) (with_defaults reg) (registrations r)\<rparr>"
    by auto
  then show ?thesis
    by (intro Resolve_Some) (simp add: update_conv')
qed

lemma RegisterAll_Resolve:
  "RegisterAll r regs = Inr r' \<Longrightarrow> Resolve r t = (reg, True) \<Longrightarrow> Resolve r' t = (reg, True)"
  by (blast intro: Resolve_Some RegisterAll_keeps dest: Resolve_TrueD)

lemma Register_example_Artist:
  "Register example_registry (bare_Registration TypeV2Artist ScopeNamespace) =
     Inr (example_registry\<lparr>registrations :=
            AList.update ''demo.v2.Artist'' (with_defaults (bare_Registration TypeV2Artist ScopeNamespace))
              (registrations example_registry)\<rparr>)"
proof -
  have "map_of (registrations example_registry) (ToGVK TypeV2Artist) = None"
    by (simp add: example_registry_def ToGVK_examples)
  from Register_ok [OF _ valid_examples(2) this, of "bare_Registration TypeV2Artist ScopeNamespace"]
  show ?thesis
    by (simp add: bare_Registration_def ToGVK_examples)
qed

section \<open>Properties of the read pipeline\<close>

lemma demo_registry_reachable:
  "RegisterAll example_registry
     [Artist_Registration, bare_Registration TypeV1Executive ScopeCluster, RecordLabel_Registration] =
   Inr demo_registry"
proof -
  have v: "valid_Type TypeV1RecordLabel"
    by (simp add: valid_Type_def TypeV1RecordLabel_def regexp_defs)
  have g: "ToGVK TypeV1RecordLabel = ''demo.v1.RecordLabel''"
    by (simp add: ToGVK_def TypeV1RecordLabel_def)
  define r1 where "r1 = \<lparr>registrations =
        [(''internal.v1.Tombstone'', tombstone_Registration tombstone_Type),
         (''demo.v2.Artist'', with_defaults Artist_Registration)]\<rparr>"
  define r2 where "r2 = \<lparr>registrations =
        [(''internal.v1.Tombstone'', tombstone_Registration tombstone_Type),
         (''demo.v2.Artist'', with_defaults Artist_Registration),
         (''demo.v1.Executive'', with_defaults (bare_Registration TypeV1Executive ScopeCluster))]\<rparr>"
  have 1: "Register example_registry Artist_Registration = Inr r1"
    using Register_ok [of Artist_Registration TypeV2Artist example_registry] valid_examples(2)
    by (simp add: Artist_Registration_def example_registry_def ToGVK_examples r1_def)
  have 2: "Register r1 (bare_Registration TypeV1Executive ScopeCluster) = Inr r2"
    using Register_ok [of "bare_Registration TypeV1Executive ScopeCluster" TypeV1Executive r1] valid_examples(4)
    by (simp add: bare_Registration_def ToGVK_examples r1_def r2_def)
  have 3: "Register r2 RecordLabel_Registration = Inr demo_registry"
    using Register_ok [of RecordLabel_Registration TypeV1RecordLabel r2] v
    by (simp add: RecordLabel_Registration_def g r2_def demo_registry_def)
  from 1 2 3 show ?thesis by simp
qed

lemma set_map_filter: "y \<in> set (List.map_filter f xs) \<longleftrightarrow> (\<exists>x \<in> set xs. f x = Some y)"
  by (induction xs) (auto simp: map_filter_simps split: option.splits)

lemma set_map_filter_Type:
  "t \<in> set (List.map_filter Type (Types r)) \<longleftrightarrow> registered r t"
  by (simp add: registered_def list_ex_iff set_map_filter)

lemma other_GroupVersion_Some:
  "other_GroupVersion r typ = Some t \<Longrightarrow>
   registered r t \<and> Group t = Group typ \<and> Kind t = Kind typ \<and> GroupVersion t \<noteq> GroupVersion typ"
  unfolding other_GroupVersion_def
  by (auto simp: find_Some_iff set_map_filter_Type [symmetric] dest: nth_mem)

lemma other_GroupVersion_None:
  "other_GroupVersion r typ = None \<longleftrightarrow>
   \<not> (\<exists>t. registered r t \<and> Group t = Group typ \<and> Kind t = Kind typ \<and> GroupVersion t \<noteq> GroupVersion typ)"
  unfolding other_GroupVersion_def
  by (auto simp: find_None_iff set_map_filter_Type)

lemma messages_differ: "gv_mismatch_message x y \<noteq> not_registered_message z"
  by (simp add: gv_mismatch_message_def not_registered_message_def)

lemma validateReadRequest_unresolved:
  assumes "ReqId req = Some ident" "IDType ident = Some typ" "Name ident \<noteq> []"
    and "\<not> snd (Resolve r typ)"
  shows "validateReadRequest r req =
    (case other_GroupVersion r typ of
       Some t \<Rightarrow> Inl (Status InvalidArgument (gv_mismatch_message (GroupVersion typ) (GroupVersion t)))
     | None \<Rightarrow> Inl (Status InvalidArgument (not_registered_message (ToGVK typ))))"
  using assms
  by (cases "Resolve r typ") (auto simp: validateReadRequest_def resolveType_def split: option.splits)

lemma validateReadRequest_resolved:
  assumes "ReqId req = Some ident" "IDType ident = Some typ" "Name ident \<noteq> []"
    and "Resolve r typ = (reg, True)"
  shows "validateReadRequest r req =
    (case validateTenancy ident (Scope reg) of
       Some msg \<Rightarrow> Inl (Status InvalidArgument msg)
     | None \<Rightarrow> Inr (ident, reg))"
  using assms
  by (simp add: validateReadRequest_def resolveType_def)

lemma demo_ID_simps:
  "IDType (demo_ID typ part ns) = Some typ"
  "Name (demo_ID typ part ns) \<noteq> []"
  "Partition (IDTenancy (demo_ID typ part ns)) = part"
  "Namespace (IDTenancy (demo_ID typ part ns)) = ns"
  by (simp_all add: demo_ID_def)

lemma demo_Request_simps:
  "ReqId (demo_Request typ part ns c) = Some (demo_ID typ part ns)"
  "Consistency (demo_Request typ part ns c) = c"
  by (simp_all add: demo_Request_def)

lemma Type_with_defaults_examples:
  "Type (with_defaults Artist_Registration) = Some TypeV2Artist"
  "Type (with_defaults (bare_Registration TypeV1Executive ScopeCluster)) = Some TypeV1Executive"
  "Type (with_defaults RecordLabel_Registration) = Some TypeV1RecordLabel"
  "Type (tombstone_Registration tombstone_Type) = Some tombstone_Type"
  by (simp_all add: Type_with_defaults Artist_Registration_def bare_Registration_def
      RecordLabel_Registration_def tombstone_Registration_def)

lemma registered_demo:
  "registered demo_registry t \<longleftrightarrow>
     t = tombstone_Type \<or> t = TypeV2Artist \<or> t = TypeV1Executive \<or> t = TypeV1RecordLabel"
  by (auto simp: registered_def Types_def demo_registry_def Type_with_defaults_examples)

lemma Resolve_demo:
  "Resolve demo_registry TypeV1Artist = (zero_Registration, False)"
  "Resolve demo_registry TypeV2Unicorn = (zero_Registration, False)"
  "Resolve demo_registry TypeV2Artist = (with_defaults Artist_Registration, True)"
  "Resolve demo_registry TypeV1Executive = (with_defaults (bare_Registration TypeV1Executive ScopeCluster), True)"
  "Resolve demo_registry TypeV1RecordLabel = (with_defaults RecordLabel_Registration, True)"
  by (simp_all add: Resolve_def demo_registry_def ToGVK_def TypeV1Artist_def TypeV2Unicorn_def
      TypeV2Artist_def TypeV1Executive_def TypeV1RecordLabel_def)

lemma Registry_demo: "Registry demo_Server = demo_registry"
  by (simp add: demo_Server_def)

lemma readHook_demo:
  "readHook (with_defaults RecordLabel_Registration) authz authzContext ident = Some ErrNeedData"
  "readHook (with_defaults Artist_Registration) authz authzContext ident = None"
  "readHook (with_defaults (bare_Registration TypeV1Executive ScopeCluster)) no_operator_Authorizer
     authzContext ident = Some (ErrPermissionDenied ''operator:read'')"
  by (simp_all add: readHook_def with_defaults_eq RecordLabel_Registration_def Artist_Registration_def
      bare_Registration_def need_data_Read_def allow_all_Read_def default_Read_def
      no_operator_Authorizer_def)

lemma Scope_demo:
  "Scope (with_defaults RecordLabel_Registration) = ScopePartition"
  "Scope (with_defaults Artist_Registration) = ScopeNamespace"
  "Scope (with_defaults (bare_Registration TypeV1Executive ScopeCluster)) = ScopeCluster"
  by (simp_all add: with_defaults_eq RecordLabel_Registration_def Artist_Registration_def
      bare_Registration_def)

lemma Backend_demo:
  "Backend demo_Server EventualConsistency ident = Inl ErrNotFound"
  "Backend demo_Server StrongConsistency ident = Inl (ErrUnavailable ''no leader'')"
  by (simp_all add: demo_Server_def)

lemma Server_Read_valid:
  assumes "ReqId req = Some ident" and "IDType ident = Some typ" and "Name ident \<noteq> []"
    and "Resolve (Registry s) typ = (reg, True)"
    and "validateTenancy ident (Scope reg) = None"
  shows "validateReadRequest (Registry s) req = Inr (ident, reg)"
  using validateReadRequest_resolved [OF assms(1-4)] assms(5) by simp

section \<open>The claims\<close>

text \<open>
  C1. For a read request that passes validation and resolves to a registration: when the
  read hook of the registration says that it needs the stored data and the backend holds
  no record at the requested identity, the read ends in \<open>NotFound\<close> after the one
  fetch, not in \<open>PermissionDenied\<close>; when the hook denies on the identity alone, the
  read ends in \<open>PermissionDenied\<close> with no call to the backend, whatever the backend
  holds.
\<close>

theorem Read_acl_ordering:
  assumes "ReqId req = Some ident" and "IDType ident = Some typ" and "Name ident \<noteq> []"
    and "Resolve (Registry s) typ = (reg, True)"
    and "validateTenancy ident (Scope reg) = None"
  shows "(readHook reg authz authzContext ident = Some ErrNeedData \<and>
          Backend s (readConsistencyFrom req) ident = Inl ErrNotFound \<longrightarrow>
            Server_Read s authz authzContext req =
              ([(readConsistencyFrom req, ident)], Inl (Status NotFound ''resource not found''))) \<and>
         (\<forall>msg. readHook reg authz authzContext ident = Some (ErrPermissionDenied msg) \<longrightarrow>
            (\<forall>backend. Server_Read (s\<lparr>Backend := backend\<rparr>) authz authzContext req =
                         ([], Inl (Status PermissionDenied msg))))"
proof (intro conjI impI allI)
  note v = Server_Read_valid [OF assms]
  {
    assume "readHook reg authz authzContext ident = Some ErrNeedData \<and>
          Backend s (readConsistencyFrom req) ident = Inl ErrNotFound"
    with v show "Server_Read s authz authzContext req =
              ([(readConsistencyFrom req, ident)], Inl (Status NotFound ''resource not found''))"
      by (simp add: Server_Read_def Let_def)
  }
  {
    fix msg backend
    assume "readHook reg authz authzContext ident = Some (ErrPermissionDenied msg)"
    with v show "Server_Read (s\<lparr>Backend := backend\<rparr>) authz authzContext req =
                         ([], Inl (Status PermissionDenied msg))"
      by (simp add: Server_Read_def)
  }
qed

theorem Read_acl_ordering_witness:
  "ReqId (demo_Request TypeV1RecordLabel ''default'' [] None) = Some (demo_ID TypeV1RecordLabel ''default'' []) \<and>
   IDType (demo_ID TypeV1RecordLabel ''default'' []) = Some TypeV1RecordLabel \<and>
   Name (demo_ID TypeV1RecordLabel ''default'' []) \<noteq> [] \<and>
   Resolve (Registry demo_Server) TypeV1RecordLabel = (with_defaults RecordLabel_Registration, True) \<and>
   validateTenancy (demo_ID TypeV1RecordLabel ''default'' []) (Scope (with_defaults RecordLabel_Registration)) = None \<and>
   readHook (with_defaults RecordLabel_Registration) no_operator_Authorizer empty_AuthorizerContext
     (demo_ID TypeV1RecordLabel ''default'' []) = Some ErrNeedData \<and>
   Backend demo_Server (readConsistencyFrom (demo_Request TypeV1RecordLabel ''default'' [] None))
     (demo_ID TypeV1RecordLabel ''default'' []) = Inl ErrNotFound \<and>
   Server_Read demo_Server no_operator_Authorizer empty_AuthorizerContext
       (demo_Request TypeV1RecordLabel ''default'' [] None) =
     ([(EventualConsistency, demo_ID TypeV1RecordLabel ''default'' [])],
      Inl (Status NotFound ''resource not found'')) \<and>
   ReqId (demo_Request TypeV1Executive [] [] None) = Some (demo_ID TypeV1Executive [] []) \<and>
   IDType (demo_ID TypeV1Executive [] []) = Some TypeV1Executive \<and>
   Name (demo_ID TypeV1Executive [] []) \<noteq> [] \<and>
   Resolve (Registry demo_Server) TypeV1Executive =
     (with_defaults (bare_Registration TypeV1Executive ScopeCluster), True) \<and>
   validateTenancy (demo_ID TypeV1Executive [] [])
     (Scope (with_defaults (bare_Registration TypeV1Executive ScopeCluster))) = None \<and>
   readHook (with_defaults (bare_Registration TypeV1Executive ScopeCluster)) no_operator_Authorizer
     empty_AuthorizerContext (demo_ID TypeV1Executive [] []) = Some (ErrPermissionDenied ''operator:read'') \<and>
   Server_Read (demo_Server\<lparr>Backend := holding_Backend\<rparr>) no_operator_Authorizer empty_AuthorizerContext
     (demo_Request TypeV1Executive [] [] None) = ([], Inl (Status PermissionDenied ''operator:read'')) \<and>
   Server_Read (demo_Server\<lparr>Backend := (\<lambda>consistency ident. Inl ErrNotFound)\<rparr>) no_operator_Authorizer
     empty_AuthorizerContext
     (demo_Request TypeV1Executive [] [] None) = ([], Inl (Status PermissionDenied ''operator:read''))"
proof -
  note ql = demo_Request_simps(1) [of TypeV1RecordLabel "''default''" "[]" None]
  note qe = demo_Request_simps(1) [of TypeV1Executive "[]" "[]" None]
  have rl: "Resolve (Registry demo_Server) TypeV1RecordLabel = (with_defaults RecordLabel_Registration, True)"
    and re: "Resolve (Registry demo_Server) TypeV1Executive =
     (with_defaults (bare_Registration TypeV1Executive ScopeCluster), True)"
    by (simp_all add: Registry_demo Resolve_demo)
  have tl: "validateTenancy (demo_ID TypeV1RecordLabel ''default'' []) (Scope (with_defaults RecordLabel_Registration)) = None"
    and te: "validateTenancy (demo_ID TypeV1Executive [] [])
     (Scope (with_defaults (bare_Registration TypeV1Executive ScopeCluster))) = None"
    by (simp_all add: Scope_demo validateTenancy_def demo_ID_simps)
  have b: "Backend demo_Server (readConsistencyFrom (demo_Request TypeV1RecordLabel ''default'' [] None))
     (demo_ID TypeV1RecordLabel ''default'' []) = Inl ErrNotFound"
    by (simp add: readConsistencyFrom_def demo_Request_simps Backend_demo)
  note hl = readHook_demo(1) [where authz = no_operator_Authorizer and authzContext = empty_AuthorizerContext
      and ident = "demo_ID TypeV1RecordLabel ''default'' []"]
  note he = readHook_demo(3) [where authzContext = empty_AuthorizerContext
      and ident = "demo_ID TypeV1Executive [] []"]
  from Read_acl_ordering [OF ql demo_ID_simps(1) demo_ID_simps(2) rl tl,
      where authz = no_operator_Authorizer and authzContext = empty_AuthorizerContext] hl b
  have 1: "Server_Read demo_Server no_operator_Authorizer empty_AuthorizerContext
       (demo_Request TypeV1RecordLabel ''default'' [] None) =
     ([(EventualConsistency, demo_ID TypeV1RecordLabel ''default'' [])],
      Inl (Status NotFound ''resource not found''))"
    by (simp add: readConsistencyFrom_def demo_Request_simps)
  from Read_acl_ordering [OF qe demo_ID_simps(1) demo_ID_simps(2) re te,
      where authz = no_operator_Authorizer and authzContext = empty_AuthorizerContext] he
  have 2: "Server_Read (demo_Server\<lparr>Backend := backend\<rparr>) no_operator_Authorizer empty_AuthorizerContext
     (demo_Request TypeV1Executive [] [] None) = ([], Inl (Status PermissionDenied ''operator:read''))"
    for backend
    by blast
  from ql qe rl re tl te b hl he 1 2 [of holding_Backend] 2 [of "\<lambda>consistency ident. Inl ErrNotFound"]
  show ?thesis
    by (simp add: demo_ID_simps)
qed

text \<open>
  C2. The claim and the comment on the \<^verbatim>\<open>List\<close> field of \<^verbatim>\<open>ACLHooks\<close> say that a
  registration without a list hook has its list requests authorized by the read hook on
  each item only. \<^verbatim>\<open>Register\<close> instead installs a list hook that asks the authorizer for
  \<^verbatim>\<open>operator:read\<close> on an empty authorizer context, whatever the read hook is. Here the
  artist kind is registered with a read hook that allows everything and no list hook:
  the stored list hook denies a caller without \<^verbatim>\<open>operator:read\<close>, whom the read hook
  admits on every identity.
\<close>

theorem nil_List_hook_is_operator_read_check:
  "Register example_registry Artist_Registration =
     Inr \<lparr>registrations = [(''internal.v1.Tombstone'', tombstone_Registration tombstone_Type),
                            (''demo.v2.Artist'', with_defaults Artist_Registration)]\<rparr> \<and>
   Resolve \<lparr>registrations = [(''internal.v1.Tombstone'', tombstone_Registration tombstone_Type),
                             (''demo.v2.Artist'', with_defaults Artist_Registration)]\<rparr> TypeV2Artist =
     (with_defaults Artist_Registration, True) \<and>
   ACLs (with_defaults Artist_Registration) =
     Some \<lparr>Read = Some allow_all_Read, Write = Some default_Write, List = Some default_List\<rparr> \<and>
   default_List no_operator_Authorizer authzContext = Some (ErrPermissionDenied ''operator:read'') \<and>
   allow_all_Read no_operator_Authorizer authzContext ident = None"
proof -
  have k: "map_of (registrations example_registry) (ToGVK TypeV2Artist) = None"
    by (simp add: example_registry_def ToGVK_examples)
  have t: "Type Artist_Registration = Some TypeV2Artist"
    by (simp add: Artist_Registration_def)
  have a: "Register example_registry Artist_Registration =
     Inr \<lparr>registrations = [(''internal.v1.Tombstone'', tombstone_Registration tombstone_Type),
                            (''demo.v2.Artist'', with_defaults Artist_Registration)]\<rparr>"
    using Register_ok [OF t valid_examples(2) k]
    by (simp add: example_registry_def ToGVK_examples)
  have b: "Resolve \<lparr>registrations = [(''internal.v1.Tombstone'', tombstone_Registration tombstone_Type),
                             (''demo.v2.Artist'', with_defaults Artist_Registration)]\<rparr> TypeV2Artist =
     (with_defaults Artist_Registration, True)"
    by (simp add: Resolve_def ToGVK_examples)
  have c: "ACLs (with_defaults Artist_Registration) =
     Some \<lparr>Read = Some allow_all_Read, Write = Some default_Write, List = Some default_List\<rparr>"
    by (simp add: with_defaults_eq Artist_Registration_def)
  have d: "default_List no_operator_Authorizer authzContext = Some (ErrPermissionDenied ''operator:read'')"
    by (simp add: default_List_def no_operator_Authorizer_def)
  have e: "allow_all_Read no_operator_Authorizer authzContext ident = None"
    by (simp add: allow_all_Read_def)
  from a b c d e show ?thesis by blast
qed

text \<open>
  C3. For a read request with an identity, a type and a name whose exact type key is not
  registered, the read ends in \<open>InvalidArgument\<close>. When a registration of the same
  group and kind exists under a different group version, the message says that the
  resource was requested with the one group version but the type is registered as the
  other; when there is none, the message says that the resource type, by its GVK, is
  not registered. The two messages are never equal.
\<close>

theorem Read_unregistered_type:
  assumes "ReqId req = Some ident" and "IDType ident = Some typ" and "Name ident \<noteq> []"
    and "\<not> snd (Resolve (Registry s) typ)"
  shows "((\<exists>t. registered (Registry s) t \<and> Group t = Group typ \<and> Kind t = Kind typ \<and>
               GroupVersion t \<noteq> GroupVersion typ) \<longrightarrow>
          (\<exists>t. registered (Registry s) t \<and> Group t = Group typ \<and> Kind t = Kind typ \<and>
               GroupVersion t \<noteq> GroupVersion typ \<and>
               Server_Read s authz authzContext req =
                 ([], Inl (Status InvalidArgument
                        (gv_mismatch_message (GroupVersion typ) (GroupVersion t)))))) \<and>
         (\<not> (\<exists>t. registered (Registry s) t \<and> Group t = Group typ \<and> Kind t = Kind typ \<and>
                 GroupVersion t \<noteq> GroupVersion typ) \<longrightarrow>
          Server_Read s authz authzContext req =
            ([], Inl (Status InvalidArgument (not_registered_message (ToGVK typ))))) \<and>
         (\<forall>x y z. gv_mismatch_message x y \<noteq> not_registered_message z)"
proof (intro conjI impI allI)
  note v = validateReadRequest_unresolved [OF assms]
  {
    assume "\<exists>t. registered (Registry s) t \<and> Group t = Group typ \<and> Kind t = Kind typ \<and>
               GroupVersion t \<noteq> GroupVersion typ"
    then have "other_GroupVersion (Registry s) typ \<noteq> None"
      by (simp add: other_GroupVersion_None)
    then obtain t where t: "other_GroupVersion (Registry s) typ = Some t"
      by auto
    with v have "Server_Read s authz authzContext req =
                 ([], Inl (Status InvalidArgument
                        (gv_mismatch_message (GroupVersion typ) (GroupVersion t))))"
      by (simp add: Server_Read_def)
    with other_GroupVersion_Some [OF t]
    show "\<exists>t. registered (Registry s) t \<and> Group t = Group typ \<and> Kind t = Kind typ \<and>
               GroupVersion t \<noteq> GroupVersion typ \<and>
               Server_Read s authz authzContext req =
                 ([], Inl (Status InvalidArgument
                        (gv_mismatch_message (GroupVersion typ) (GroupVersion t))))"
      by blast
  }
  {
    assume "\<not> (\<exists>t. registered (Registry s) t \<and> Group t = Group typ \<and> Kind t = Kind typ \<and>
                 GroupVersion t \<noteq> GroupVersion typ)"
    then have "other_GroupVersion (Registry s) typ = None"
      by (simp add: other_GroupVersion_None)
    with v show "Server_Read s authz authzContext req =
            ([], Inl (Status InvalidArgument (not_registered_message (ToGVK typ))))"
      by (simp add: Server_Read_def)
  }
  {
    fix x y z
    show "gv_mismatch_message x y \<noteq> not_registered_message z"
      by (rule messages_differ)
  }
qed

theorem Read_unregistered_type_witness:
  "ReqId (demo_Request TypeV1Artist ''default'' ''default'' None) =
     Some (demo_ID TypeV1Artist ''default'' ''default'') \<and>
   IDType (demo_ID TypeV1Artist ''default'' ''default'') = Some TypeV1Artist \<and>
   Name (demo_ID TypeV1Artist ''default'' ''default'') \<noteq> [] \<and>
   \<not> snd (Resolve (Registry demo_Server) TypeV1Artist) \<and>
   registered (Registry demo_Server) TypeV2Artist \<and>
   Server_Read demo_Server no_operator_Authorizer empty_AuthorizerContext
       (demo_Request TypeV1Artist ''default'' ''default'' None) =
     ([], Inl (Status InvalidArgument
        ''resource was requested with GroupVersion v1 but type is registered as v2'')) \<and>
   \<not> snd (Resolve (Registry demo_Server) TypeV2Unicorn) \<and>
   Server_Read demo_Server no_operator_Authorizer empty_AuthorizerContext
       (demo_Request TypeV2Unicorn ''default'' ''default'' None) =
     ([], Inl (Status InvalidArgument ''resource type demo.v2.Unicorn not registered''))"
proof -
  have a: "\<not> snd (Resolve (Registry demo_Server) TypeV1Artist)"
    and u: "\<not> snd (Resolve (Registry demo_Server) TypeV2Unicorn)"
    by (simp_all add: Registry_demo Resolve_demo)
  have r: "registered (Registry demo_Server) TypeV2Artist"
    by (simp add: Registry_demo registered_demo)
  have only: "t = TypeV2Artist"
    if "registered (Registry demo_Server) t" and "Group t = Group TypeV1Artist"
      and "Kind t = Kind TypeV1Artist" for t
    using that
    by (auto simp: Registry_demo registered_demo tombstone_Type_def TypeV2Artist_def
        TypeV1Executive_def TypeV1RecordLabel_def TypeV1Artist_def)
  have ex: "\<exists>t. registered (Registry demo_Server) t \<and> Group t = Group TypeV1Artist \<and>
      Kind t = Kind TypeV1Artist \<and> GroupVersion t \<noteq> GroupVersion TypeV1Artist"
    by (rule exI [of _ TypeV2Artist])
       (simp add: Registry_demo registered_demo TypeV2Artist_def TypeV1Artist_def)
  have none: "\<not> (\<exists>t. registered (Registry demo_Server) t \<and> Group t = Group TypeV2Unicorn \<and>
      Kind t = Kind TypeV2Unicorn \<and> GroupVersion t \<noteq> GroupVersion TypeV2Unicorn)"
    by (auto simp: Registry_demo registered_demo tombstone_Type_def TypeV2Artist_def
        TypeV1Executive_def TypeV1RecordLabel_def TypeV2Unicorn_def)
  note q = demo_Request_simps(1) [where part = "''default''" and ns = "''default''" and c = None]
  from Read_unregistered_type [OF q demo_ID_simps(1) demo_ID_simps(2) a,
      where authz = no_operator_Authorizer and authzContext = empty_AuthorizerContext] ex
  obtain t where t: "registered (Registry demo_Server) t" "Group t = Group TypeV1Artist"
    "Kind t = Kind TypeV1Artist"
    "Server_Read demo_Server no_operator_Authorizer empty_AuthorizerContext
       (demo_Request TypeV1Artist ''default'' ''default'' None) =
     ([], Inl (Status InvalidArgument
        (gv_mismatch_message (GroupVersion TypeV1Artist) (GroupVersion t))))"
    by blast
  from only [OF t(1,2,3)] t(4)
  have 1: "Server_Read demo_Server no_operator_Authorizer empty_AuthorizerContext
       (demo_Request TypeV1Artist ''default'' ''default'' None) =
     ([], Inl (Status InvalidArgument
        (gv_mismatch_message (GroupVersion TypeV1Artist) (GroupVersion TypeV2Artist))))"
    by simp
  from Read_unregistered_type [OF q demo_ID_simps(1) demo_ID_simps(2) u,
      where authz = no_operator_Authorizer and authzContext = empty_AuthorizerContext] none
  have 2: "Server_Read demo_Server no_operator_Authorizer empty_AuthorizerContext
       (demo_Request TypeV2Unicorn ''default'' ''default'' None) =
     ([], Inl (Status InvalidArgument (not_registered_message (ToGVK TypeV2Unicorn))))"
    by blast
  from 1 2 a u r show ?thesis
    by (simp add: demo_Request_simps demo_ID_simps gv_mismatch_message_def not_registered_message_def
        TypeV1Artist_def TypeV2Artist_def TypeV2Unicorn_def ToGVK_def)
qed

text \<open>
  C4. On every registry reached from \<^verbatim>\<open>NewRegistry\<close> by \<^verbatim>\<open>Register\<close> calls, \<^verbatim>\<open>Register\<close>
  of a registration with a type key panics exactly when the group, the group version or
  the kind does not match its pattern, or a registration with the same type key is
  registered already (the empty-field check is no further case: an empty field matches
  no pattern). Two distinct valid type keys, neither registered yet, are registered one
  after the other without a panic, and \<^verbatim>\<open>Resolve\<close> then finds each of them, with
  \<^verbatim>\<open>true\<close> and with the registration stored for it.
\<close>

theorem Register_panics_exactly:
  assumes "NewRegistry tomb = Inr r0" and "RegisterAll r0 regs = Inr r"
  shows "(Type reg = Some typ \<longrightarrow>
            ((\<exists>p. Register r reg = Inl p) \<longleftrightarrow>
               \<not> MatchString groupRegexp (Group typ) \<or>
               \<not> MatchString groupVersionRegexp (GroupVersion typ) \<or>
               \<not> MatchString kindRegexp (Kind typ) \<or>
               registered r typ)) \<and>
         (Type reg1 = Some t1 \<and> Type reg2 = Some t2 \<and> valid_Type t1 \<and> valid_Type t2 \<and>
          t1 \<noteq> t2 \<and> \<not> registered r t1 \<and> \<not> registered r t2 \<longrightarrow>
            (\<exists>r1 r2. Register r reg1 = Inr r1 \<and> Register r1 reg2 = Inr r2 \<and>
                     Resolve r2 t1 = (with_defaults reg1, True) \<and>
                     Resolve r2 t2 = (with_defaults reg2, True)))"
proof (intro conjI impI)
  have inv: "registry_inv r"
    using assms by (rule reachable_inv)
  {
    assume t: "Type reg = Some typ"
    show "(\<exists>p. Register r reg = Inl p) \<longleftrightarrow>
               \<not> MatchString groupRegexp (Group typ) \<or>
               \<not> MatchString groupVersionRegexp (GroupVersion typ) \<or>
               \<not> MatchString kindRegexp (Kind typ) \<or>
               registered r typ"
    proof (cases "valid_Type typ")
      case True
      with Register_panics_iff [OF t, of r] registered_iff_key [OF inv True]
      show ?thesis by (simp add: valid_Type_def)
    next
      case False
      with Register_panics_iff [OF t, of r]
      show ?thesis by (auto simp: valid_Type_def)
    qed
  }
  {
    assume h: "Type reg1 = Some t1 \<and> Type reg2 = Some t2 \<and> valid_Type t1 \<and> valid_Type t2 \<and>
          t1 \<noteq> t2 \<and> \<not> registered r t1 \<and> \<not> registered r t2"
    then have ty: "Type reg1 = Some t1" "Type reg2 = Some t2"
      and v: "valid_Type t1" "valid_Type t2" and ne: "t1 \<noteq> t2"
      and nr: "\<not> registered r t1" "\<not> registered r t2"
      by simp_all
    from v ne have kne: "ToGVK t1 \<noteq> ToGVK t2"
      by (auto dest: ToGVK_inj)
    from nr registered_iff_key [OF inv] v
    have k: "map_of (registrations r) (ToGVK t1) = None" "map_of (registrations r) (ToGVK t2) = None"
      by simp_all
    define r1 where "r1 = r\<lparr>registrations := AList.update (ToGVK t1) (with_defaults reg1) (registrations r)\<rparr>"
    define r2 where "r2 = r1\<lparr>registrations := AList.update (ToGVK t2) (with_defaults reg2) (registrations r1)\<rparr>"
    have 1: "Register r reg1 = Inr r1"
      unfolding r1_def using ty(1) v(1) k(1) by (rule Register_ok)
    have k2: "map_of (registrations r1) (ToGVK t2) = None"
      using k(2) kne by (simp add: r1_def update_conv')
    have 2: "Register r1 reg2 = Inr r2"
      unfolding r2_def using ty(2) v(2) k2 by (rule Register_ok)
    have 3: "Resolve r2 t1 = (with_defaults reg1, True)"
      using kne by (intro Resolve_Some) (simp add: r2_def r1_def update_conv')
    have 4: "Resolve r2 t2 = (with_defaults reg2, True)"
      by (intro Resolve_Some) (simp add: r2_def update_conv')
    from 1 2 3 4
    show "\<exists>r1 r2. Register r reg1 = Inr r1 \<and> Register r1 reg2 = Inr r2 \<and>
                     Resolve r2 t1 = (with_defaults reg1, True) \<and>
                     Resolve r2 t2 = (with_defaults reg2, True)"
      by blast
  }
qed

theorem Register_panics_exactly_witness:
  "NewRegistry tombstone_Type = Inr example_registry \<and>
   RegisterAll example_registry [] = Inr example_registry \<and>
   Type (bare_Registration tombstone_Type ScopeNamespace) = Some tombstone_Type \<and>
   registered example_registry tombstone_Type \<and>
   (\<exists>p. Register example_registry (bare_Registration tombstone_Type ScopeNamespace) = Inl p) \<and>
   Type (bare_Registration TypeV2Artist ScopeNamespace) = Some TypeV2Artist \<and>
   Type (bare_Registration TypeV1Executive ScopeCluster) = Some TypeV1Executive \<and>
   valid_Type TypeV2Artist \<and> valid_Type TypeV1Executive \<and> TypeV2Artist \<noteq> TypeV1Executive \<and>
   \<not> registered example_registry TypeV2Artist \<and> \<not> registered example_registry TypeV1Executive \<and>
   (\<exists>r1 r2. Register example_registry (bare_Registration TypeV2Artist ScopeNamespace) = Inr r1 \<and>
            Register r1 (bare_Registration TypeV1Executive ScopeCluster) = Inr r2 \<and>
            Resolve r2 TypeV2Artist = (with_defaults (bare_Registration TypeV2Artist ScopeNamespace), True) \<and>
            Resolve r2 TypeV1Executive = (with_defaults (bare_Registration TypeV1Executive ScopeCluster), True))"
proof -
  have n: "NewRegistry tombstone_Type = Inr example_registry"
    by (rule NewRegistry_example)
  have a: "RegisterAll example_registry [] = Inr example_registry"
    by simp
  have t: "Type (bare_Registration tombstone_Type ScopeNamespace) = Some tombstone_Type"
    "Type (bare_Registration TypeV2Artist ScopeNamespace) = Some TypeV2Artist"
    "Type (bare_Registration TypeV1Executive ScopeCluster) = Some TypeV1Executive"
    by (simp_all add: bare_Registration_def)
  have r: "registered example_registry tombstone_Type"
    "\<not> registered example_registry TypeV2Artist" "\<not> registered example_registry TypeV1Executive"
    by (simp_all add: registered_def Types_def example_registry_def tombstone_Registration_def
        tombstone_Type_def TypeV2Artist_def TypeV1Executive_def)
  have d: "TypeV2Artist \<noteq> TypeV1Executive"
    by (simp add: TypeV2Artist_def TypeV1Executive_def)
  note v = valid_examples(2) valid_examples(4)
  from Register_panics_exactly [OF n a, of "bare_Registration tombstone_Type ScopeNamespace" tombstone_Type
      "bare_Registration TypeV2Artist ScopeNamespace" TypeV2Artist
      "bare_Registration TypeV1Executive ScopeCluster" TypeV1Executive]
    t r d v
  have "(\<exists>p. Register example_registry (bare_Registration tombstone_Type ScopeNamespace) = Inl p) \<and>
    (\<exists>r1 r2. Register example_registry (bare_Registration TypeV2Artist ScopeNamespace) = Inr r1 \<and>
            Register r1 (bare_Registration TypeV1Executive ScopeCluster) = Inr r2 \<and>
            Resolve r2 TypeV2Artist = (with_defaults (bare_Registration TypeV2Artist ScopeNamespace), True) \<and>
            Resolve r2 TypeV1Executive = (with_defaults (bare_Registration TypeV1Executive ScopeCluster), True))"
    by simp
  with n a t r d v show ?thesis by simp
qed

text \<open>
  C5. \<^verbatim>\<open>NewRegistry\<close> returns a registry whenever the tombstone type key is valid, and
  the registry it returns, as every registry reached from it by \<^verbatim>\<open>Register\<close> calls,
  holds the tombstone kind: \<^verbatim>\<open>Resolve\<close> finds it and \<^verbatim>\<open>Types\<close> lists it. What is
  stored for it are the default hooks and no other: the read hook is the authorizer's
  \<^verbatim>\<open>operator:read\<close> decision on the caller's context, the write hook its
  \<^verbatim>\<open>operator:write\<close> decision on the caller's context, the list hook its
  \<^verbatim>\<open>operator:read\<close> decision on an empty context, validation accepts every resource
  and mutation returns the resource as it is.
\<close>

theorem Tombstone_always_registered:
  "(valid_Type tomb \<longrightarrow> (\<exists>r0. NewRegistry tomb = Inr r0)) \<and>
   (NewRegistry tomb = Inr r0 \<and> RegisterAll r0 regs = Inr r \<longrightarrow>
      Resolve r tomb = (tombstone_Registration tomb, True) \<and>
      tombstone_Registration tomb \<in> set (Types r) \<and>
      snd (Resolve r tomb) \<and>
      Type (fst (Resolve r tomb)) = Some tomb \<and>
      Proto (fst (Resolve r tomb)) = Some ''Tombstone'' \<and>
      ACLs (fst (Resolve r tomb)) =
        Some \<lparr>Read = Some (\<lambda>authz authzContext ident. OperatorReadAllowed authz authzContext),
              Write = Some (\<lambda>authz authzContext res. OperatorWriteAllowed authz authzContext),
              List = Some (\<lambda>authz authzContext. OperatorReadAllowed authz empty_AuthorizerContext)\<rparr> \<and>
      Validate (fst (Resolve r tomb)) = Some (\<lambda>res. None) \<and>
      Mutate (fst (Resolve r tomb)) = Some (\<lambda>res. (res, None)))"
proof (intro conjI impI)
  assume "valid_Type tomb"
  then show "\<exists>r0. NewRegistry tomb = Inr r0"
    by (simp add: NewRegistry_eq)
next
  assume h: "NewRegistry tomb = Inr r0 \<and> RegisterAll r0 regs = Inr r"
  then have "valid_Type tomb"
    by (blast dest: NewRegistry_valid)
  with h have "r0 = \<lparr>registrations = [(ToGVK tomb, tombstone_Registration tomb)]\<rparr>"
    by (simp add: NewRegistry_eq)
  then have "Resolve r0 tomb = (tombstone_Registration tomb, True)"
    by (simp add: Resolve_def)
  with h show res: "Resolve r tomb = (tombstone_Registration tomb, True)"
    by (blast intro: RegisterAll_Resolve)
  then have "map_of (registrations r) (ToGVK tomb) = Some (tombstone_Registration tomb)"
    by (rule Resolve_TrueD)
  then show "tombstone_Registration tomb \<in> set (Types r)"
    by (force simp: Types_def dest: map_of_SomeD)
  from res show "snd (Resolve r tomb)"
    by simp
  from res show "Type (fst (Resolve r tomb)) = Some tomb"
    by (simp add: tombstone_Registration_def)
  from res show "Proto (fst (Resolve r tomb)) = Some ''Tombstone''"
    by (simp add: tombstone_Registration_def)
  from res show "ACLs (fst (Resolve r tomb)) =
        Some \<lparr>Read = Some (\<lambda>authz authzContext ident. OperatorReadAllowed authz authzContext),
              Write = Some (\<lambda>authz authzContext res. OperatorWriteAllowed authz authzContext),
              List = Some (\<lambda>authz authzContext. OperatorReadAllowed authz empty_AuthorizerContext)\<rparr>"
    by (simp add: tombstone_Registration_def default_Read_def default_Write_def default_List_def)
  from res show "Validate (fst (Resolve r tomb)) = Some (\<lambda>res. None)"
    by (simp add: tombstone_Registration_def default_Validate_def)
  from res show "Mutate (fst (Resolve r tomb)) = Some (\<lambda>res. (res, None))"
    by (simp add: tombstone_Registration_def default_Mutate_def)
qed

theorem Tombstone_always_registered_witness:
  "valid_Type tombstone_Type \<and>
   NewRegistry tombstone_Type = Inr example_registry \<and>
   RegisterAll example_registry [Artist_Registration] =
     Inr \<lparr>registrations = [(''internal.v1.Tombstone'', tombstone_Registration tombstone_Type),
                            (''demo.v2.Artist'', with_defaults Artist_Registration)]\<rparr> \<and>
   Resolve \<lparr>registrations = [(''internal.v1.Tombstone'', tombstone_Registration tombstone_Type),
                             (''demo.v2.Artist'', with_defaults Artist_Registration)]\<rparr> tombstone_Type =
     (tombstone_Registration tombstone_Type, True) \<and>
   tombstone_Registration tombstone_Type \<in>
     set (Types \<lparr>registrations = [(''internal.v1.Tombstone'', tombstone_Registration tombstone_Type),
                                  (''demo.v2.Artist'', with_defaults Artist_Registration)]\<rparr>) \<and>
   map_option (\<lambda>hook. hook read_only_Authorizer empty_AuthorizerContext (demo_ID tombstone_Type [] []))
     (Option.bind (ACLs (fst (Resolve \<lparr>registrations =
         [(''internal.v1.Tombstone'', tombstone_Registration tombstone_Type),
          (''demo.v2.Artist'', with_defaults Artist_Registration)]\<rparr> tombstone_Type))) Read) =
     Some None \<and>
   map_option (\<lambda>hook. hook read_only_Authorizer empty_AuthorizerContext tombstone_Resource)
     (Option.bind (ACLs (fst (Resolve \<lparr>registrations =
         [(''internal.v1.Tombstone'', tombstone_Registration tombstone_Type),
          (''demo.v2.Artist'', with_defaults Artist_Registration)]\<rparr> tombstone_Type))) Write) =
     Some (Some (ErrPermissionDenied ''operator:write'')) \<and>
   map_option (\<lambda>hook. hook read_only_Authorizer \<lparr>Peer = ''peer''\<rparr>)
     (Option.bind (ACLs (fst (Resolve \<lparr>registrations =
         [(''internal.v1.Tombstone'', tombstone_Registration tombstone_Type),
          (''demo.v2.Artist'', with_defaults Artist_Registration)]\<rparr> tombstone_Type))) List) =
     Some None \<and>
   map_option (\<lambda>hook. hook no_operator_Authorizer empty_AuthorizerContext (demo_ID tombstone_Type [] []))
     (Option.bind (ACLs (fst (Resolve \<lparr>registrations =
         [(''internal.v1.Tombstone'', tombstone_Registration tombstone_Type),
          (''demo.v2.Artist'', with_defaults Artist_Registration)]\<rparr> tombstone_Type))) Read) =
     Some (Some (ErrPermissionDenied ''operator:read'')) \<and>
   map_option (\<lambda>hook. hook no_operator_Authorizer \<lparr>Peer = ''peer''\<rparr>)
     (Option.bind (ACLs (fst (Resolve \<lparr>registrations =
         [(''internal.v1.Tombstone'', tombstone_Registration tombstone_Type),
          (''demo.v2.Artist'', with_defaults Artist_Registration)]\<rparr> tombstone_Type))) List) =
     Some (Some (ErrPermissionDenied ''operator:read'')) \<and>
   map_option (\<lambda>hook. hook tombstone_Resource)
     (Validate (fst (Resolve \<lparr>registrations =
         [(''internal.v1.Tombstone'', tombstone_Registration tombstone_Type),
          (''demo.v2.Artist'', with_defaults Artist_Registration)]\<rparr> tombstone_Type))) =
     Some None \<and>
   map_option (\<lambda>hook. hook tombstone_Resource)
     (Mutate (fst (Resolve \<lparr>registrations =
         [(''internal.v1.Tombstone'', tombstone_Registration tombstone_Type),
          (''demo.v2.Artist'', with_defaults Artist_Registration)]\<rparr> tombstone_Type))) =
     Some (tombstone_Resource, None)"
proof -
  define R where "R = \<lparr>registrations =
         [(''internal.v1.Tombstone'', tombstone_Registration tombstone_Type),
          (''demo.v2.Artist'', with_defaults Artist_Registration)]\<rparr>"
  have n: "NewRegistry tombstone_Type = Inr example_registry"
    by (rule NewRegistry_example)
  have k: "map_of (registrations example_registry) (ToGVK TypeV2Artist) = None"
    by (simp add: example_registry_def ToGVK_examples)
  have t: "Type Artist_Registration = Some TypeV2Artist"
    by (simp add: Artist_Registration_def)
  have a: "RegisterAll example_registry [Artist_Registration] = Inr R"
    using Register_ok [OF t valid_examples(2) k]
    by (simp add: example_registry_def ToGVK_examples R_def)
  from Tombstone_always_registered [of tombstone_Type example_registry "[Artist_Registration]" R]
    n a valid_examples(1)
  have 1: "Resolve R tombstone_Type = (tombstone_Registration tombstone_Type, True)"
    and 2: "tombstone_Registration tombstone_Type \<in> set (Types R)"
    and 3: "ACLs (fst (Resolve R tombstone_Type)) =
        Some \<lparr>Read = Some (\<lambda>authz authzContext ident. OperatorReadAllowed authz authzContext),
              Write = Some (\<lambda>authz authzContext res. OperatorWriteAllowed authz authzContext),
              List = Some (\<lambda>authz authzContext. OperatorReadAllowed authz empty_AuthorizerContext)\<rparr>"
    and 4: "Validate (fst (Resolve R tombstone_Type)) = Some (\<lambda>res. None)"
    and 5: "Mutate (fst (Resolve R tombstone_Type)) = Some (\<lambda>res. (res, None))"
    by blast+
  have 6: "map_option (\<lambda>hook. hook read_only_Authorizer empty_AuthorizerContext (demo_ID tombstone_Type [] []))
       (Option.bind (ACLs (fst (Resolve R tombstone_Type))) Read) = Some None"
    "map_option (\<lambda>hook. hook read_only_Authorizer empty_AuthorizerContext tombstone_Resource)
       (Option.bind (ACLs (fst (Resolve R tombstone_Type))) Write) =
       Some (Some (ErrPermissionDenied ''operator:write''))"
    "map_option (\<lambda>hook. hook read_only_Authorizer \<lparr>Peer = ''peer''\<rparr>)
       (Option.bind (ACLs (fst (Resolve R tombstone_Type))) List) = Some None"
    "map_option (\<lambda>hook. hook no_operator_Authorizer empty_AuthorizerContext (demo_ID tombstone_Type [] []))
       (Option.bind (ACLs (fst (Resolve R tombstone_Type))) Read) =
       Some (Some (ErrPermissionDenied ''operator:read''))"
    "map_option (\<lambda>hook. hook no_operator_Authorizer \<lparr>Peer = ''peer''\<rparr>)
       (Option.bind (ACLs (fst (Resolve R tombstone_Type))) List) =
       Some (Some (ErrPermissionDenied ''operator:read''))"
    unfolding 3 by (simp_all add: read_only_Authorizer_def no_operator_Authorizer_def)
  have 7: "map_option (\<lambda>hook. hook tombstone_Resource) (Validate (fst (Resolve R tombstone_Type))) = Some None"
    "map_option (\<lambda>hook. hook tombstone_Resource) (Mutate (fst (Resolve R tombstone_Type))) =
       Some (tombstone_Resource, None)"
    unfolding 4 5 by simp_all
  from valid_examples(1) n a 1 2 6 7 show ?thesis
    unfolding R_def by blast
qed

text \<open>
  C6. When the requested type resolves to a cluster-scoped kind, a read with a non-empty
  partition or a non-empty namespace ends in \<open>InvalidArgument\<close>; when it resolves to a
  partition-scoped kind, so does a read with a non-empty namespace. The tenancy
  validator rejects in exactly these cases: a populated field that the scope forbids.
\<close>

theorem Read_scope_validation:
  assumes "ReqId req = Some ident" and "IDType ident = Some typ"
    and "Resolve (Registry s) typ = (reg, True)"
  shows "(Scope reg = ScopeCluster \<and>
            (Partition (IDTenancy ident) \<noteq> [] \<or> Namespace (IDTenancy ident) \<noteq> []) \<longrightarrow>
          (\<exists>msg. Server_Read s authz authzContext req = ([], Inl (Status InvalidArgument msg)))) \<and>
         (Scope reg = ScopePartition \<and> Namespace (IDTenancy ident) \<noteq> [] \<longrightarrow>
          (\<exists>msg. Server_Read s authz authzContext req = ([], Inl (Status InvalidArgument msg)))) \<and>
         (validateTenancy ident scope \<noteq> None \<longleftrightarrow>
            scope = ScopeCluster \<and>
              (Partition (IDTenancy ident) \<noteq> [] \<or> Namespace (IDTenancy ident) \<noteq> []) \<or>
            scope = ScopePartition \<and> Namespace (IDTenancy ident) \<noteq> [])"
proof -
  have v: "validateTenancy ident scope \<noteq> None \<longleftrightarrow>
            scope = ScopeCluster \<and>
              (Partition (IDTenancy ident) \<noteq> [] \<or> Namespace (IDTenancy ident) \<noteq> []) \<or>
            scope = ScopePartition \<and> Namespace (IDTenancy ident) \<noteq> []" for scope
    by (cases scope) (simp_all add: validateTenancy_def)
  have inv: "\<exists>msg. Server_Read s authz authzContext req = ([], Inl (Status InvalidArgument msg))"
    if "validateTenancy ident (Scope reg) \<noteq> None"
  proof (cases "Name ident = []")
    case True
    with assms show ?thesis
      by (simp add: Server_Read_def validateReadRequest_def)
  next
    case False
    from that obtain msg where "validateTenancy ident (Scope reg) = Some msg"
      by auto
    with validateReadRequest_resolved [OF assms(1,2) False assms(3)] show ?thesis
      by (simp add: Server_Read_def)
  qed
  from v [of "Scope reg"] v [of scope] inv show ?thesis
    by blast
qed

theorem Read_scope_validation_witness:
  "ReqId (demo_Request TypeV1Executive ''default'' [] None) = Some (demo_ID TypeV1Executive ''default'' []) \<and>
   IDType (demo_ID TypeV1Executive ''default'' []) = Some TypeV1Executive \<and>
   Resolve (Registry demo_Server) TypeV1Executive =
     (with_defaults (bare_Registration TypeV1Executive ScopeCluster), True) \<and>
   Scope (with_defaults (bare_Registration TypeV1Executive ScopeCluster)) = ScopeCluster \<and>
   Partition (IDTenancy (demo_ID TypeV1Executive ''default'' [])) \<noteq> [] \<and>
   (\<exists>msg. Server_Read demo_Server no_operator_Authorizer empty_AuthorizerContext
       (demo_Request TypeV1Executive ''default'' [] None) = ([], Inl (Status InvalidArgument msg))) \<and>
   ReqId (demo_Request TypeV1RecordLabel ''default'' ''ns'' None) = Some (demo_ID TypeV1RecordLabel ''default'' ''ns'') \<and>
   IDType (demo_ID TypeV1RecordLabel ''default'' ''ns'') = Some TypeV1RecordLabel \<and>
   Resolve (Registry demo_Server) TypeV1RecordLabel = (with_defaults RecordLabel_Registration, True) \<and>
   Scope (with_defaults RecordLabel_Registration) = ScopePartition \<and>
   Namespace (IDTenancy (demo_ID TypeV1RecordLabel ''default'' ''ns'')) \<noteq> [] \<and>
   (\<exists>msg. Server_Read demo_Server no_operator_Authorizer empty_AuthorizerContext
       (demo_Request TypeV1RecordLabel ''default'' ''ns'' None) = ([], Inl (Status InvalidArgument msg))) \<and>
   validateTenancy (demo_ID TypeV1RecordLabel ''default'' ''ns'') ScopeNamespace = None"
proof -
  have e: "Resolve (Registry demo_Server) TypeV1Executive =
     (with_defaults (bare_Registration TypeV1Executive ScopeCluster), True)"
    and l: "Resolve (Registry demo_Server) TypeV1RecordLabel = (with_defaults RecordLabel_Registration, True)"
    by (simp_all add: Registry_demo Resolve_demo)
  have se: "Scope (with_defaults (bare_Registration TypeV1Executive ScopeCluster)) = ScopeCluster"
    and sl: "Scope (with_defaults RecordLabel_Registration) = ScopePartition"
    by (simp_all add: with_defaults_eq bare_Registration_def RecordLabel_Registration_def)
  note q1 = demo_Request_simps(1) [where part = "''default''" and ns = "[]" and c = None]
  note q2 = demo_Request_simps(1) [where part = "''default''" and ns = "''ns''" and c = None]
  from Read_scope_validation [OF q1 demo_ID_simps(1) e,
      where authz = no_operator_Authorizer and authzContext = empty_AuthorizerContext
        and scope = ScopeNamespace] se
  have 1: "\<exists>msg. Server_Read demo_Server no_operator_Authorizer empty_AuthorizerContext
       (demo_Request TypeV1Executive ''default'' [] None) = ([], Inl (Status InvalidArgument msg))"
    by (simp add: demo_ID_simps)
  from Read_scope_validation [OF q2 demo_ID_simps(1) l,
      where authz = no_operator_Authorizer and authzContext = empty_AuthorizerContext
        and scope = ScopeNamespace] sl
  have 2: "\<exists>msg. Server_Read demo_Server no_operator_Authorizer empty_AuthorizerContext
       (demo_Request TypeV1RecordLabel ''default'' ''ns'' None) = ([], Inl (Status InvalidArgument msg))"
    and 3: "validateTenancy (demo_ID TypeV1RecordLabel ''default'' ''ns'') ScopeNamespace = None"
    by (simp_all add: demo_ID_simps)
  from 1 2 3 e l se sl show ?thesis
    by (simp add: demo_Request_simps demo_ID_simps)
qed

text \<open>
  C7. For a read request that passes validation and whose read hook does not deny, the
  backend is called once, with \<open>EventualConsistency\<close> when the request states no
  preference and with the stated consistency otherwise, so with \<open>StrongConsistency\<close>
  for a strong request; and when the backend answers \<open>Unavailable\<close>, the read ends in
  \<open>Unavailable\<close> with the backend's message.
\<close>

theorem Read_consistency_passthrough:
  assumes "ReqId req = Some ident" and "IDType ident = Some typ" and "Name ident \<noteq> []"
    and "Resolve (Registry s) typ = (reg, True)"
    and "validateTenancy ident (Scope reg) = None"
    and "readHook reg authz authzContext ident = None \<or>
         readHook reg authz authzContext ident = Some ErrNeedData"
  shows "(Consistency req = None \<longrightarrow>
            fst (Server_Read s authz authzContext req) = [(EventualConsistency, ident)]) \<and>
         (Consistency req = Some StrongConsistency \<longrightarrow>
            fst (Server_Read s authz authzContext req) = [(StrongConsistency, ident)]) \<and>
         (\<forall>c. Consistency req = Some c \<longrightarrow>
            fst (Server_Read s authz authzContext req) = [(c, ident)]) \<and>
         (\<forall>msg. Backend s (readConsistencyFrom req) ident = Inl (ErrUnavailable msg) \<longrightarrow>
            snd (Server_Read s authz authzContext req) = Inl (Status Unavailable msg))"
proof -
  note v = Server_Read_valid [OF assms(1-5)]
  have calls: "fst (Server_Read s authz authzContext req) = [(readConsistencyFrom req, ident)]"
    using v assms(6)
    by (auto simp: Server_Read_def Let_def split: sum.splits storage_error.splits option.splits error.splits)
  have un: "snd (Server_Read s authz authzContext req) = Inl (Status Unavailable msg)"
    if "Backend s (readConsistencyFrom req) ident = Inl (ErrUnavailable msg)" for msg
    using v assms(6) that
    by (auto simp: Server_Read_def Let_def)
  from calls un show ?thesis
    by (simp add: readConsistencyFrom_def)
qed

theorem Read_consistency_passthrough_witness:
  "ReqId (demo_Request TypeV2Artist ''default'' ''default'' (Some StrongConsistency)) =
     Some (demo_ID TypeV2Artist ''default'' ''default'') \<and>
   IDType (demo_ID TypeV2Artist ''default'' ''default'') = Some TypeV2Artist \<and>
   Name (demo_ID TypeV2Artist ''default'' ''default'') \<noteq> [] \<and>
   Resolve (Registry demo_Server) TypeV2Artist = (with_defaults Artist_Registration, True) \<and>
   validateTenancy (demo_ID TypeV2Artist ''default'' ''default'') (Scope (with_defaults Artist_Registration)) = None \<and>
   readHook (with_defaults Artist_Registration) no_operator_Authorizer empty_AuthorizerContext
     (demo_ID TypeV2Artist ''default'' ''default'') = None \<and>
   Server_Read demo_Server no_operator_Authorizer empty_AuthorizerContext
     (demo_Request TypeV2Artist ''default'' ''default'' (Some StrongConsistency)) =
     ([(StrongConsistency, demo_ID TypeV2Artist ''default'' ''default'')],
      Inl (Status Unavailable ''no leader'')) \<and>
   fst (Server_Read demo_Server no_operator_Authorizer empty_AuthorizerContext
     (demo_Request TypeV2Artist ''default'' ''default'' None)) =
     [(EventualConsistency, demo_ID TypeV2Artist ''default'' ''default'')]"
proof -
  note qs = demo_Request_simps(1) [of TypeV2Artist "''default''" "''default''" "Some StrongConsistency"]
  note qn = demo_Request_simps(1) [of TypeV2Artist "''default''" "''default''" None]
  have r: "Resolve (Registry demo_Server) TypeV2Artist = (with_defaults Artist_Registration, True)"
    by (simp add: Registry_demo Resolve_demo)
  have t: "validateTenancy (demo_ID TypeV2Artist ''default'' ''default'') (Scope (with_defaults Artist_Registration)) = None"
    by (simp add: Scope_demo validateTenancy_def)
  note h = readHook_demo(2) [where authz = no_operator_Authorizer and authzContext = empty_AuthorizerContext
      and ident = "demo_ID TypeV2Artist ''default'' ''default''"]
  have h': "readHook (with_defaults Artist_Registration) no_operator_Authorizer empty_AuthorizerContext
     (demo_ID TypeV2Artist ''default'' ''default'') = None \<or>
    readHook (with_defaults Artist_Registration) no_operator_Authorizer empty_AuthorizerContext
     (demo_ID TypeV2Artist ''default'' ''default'') = Some ErrNeedData"
    using h by simp
  have b: "Backend demo_Server
      (readConsistencyFrom (demo_Request TypeV2Artist ''default'' ''default'' (Some StrongConsistency)))
      (demo_ID TypeV2Artist ''default'' ''default'') = Inl (ErrUnavailable ''no leader'')"
    by (simp add: readConsistencyFrom_def demo_Request_simps Backend_demo)
  from Read_consistency_passthrough [OF qs demo_ID_simps(1) demo_ID_simps(2) r t h'] b
  have 1: "fst (Server_Read demo_Server no_operator_Authorizer empty_AuthorizerContext
     (demo_Request TypeV2Artist ''default'' ''default'' (Some StrongConsistency))) =
     [(StrongConsistency, demo_ID TypeV2Artist ''default'' ''default'')]"
    and 2: "snd (Server_Read demo_Server no_operator_Authorizer empty_AuthorizerContext
     (demo_Request TypeV2Artist ''default'' ''default'' (Some StrongConsistency))) =
     Inl (Status Unavailable ''no leader'')"
    by (simp_all add: demo_Request_simps)
  from Read_consistency_passthrough [OF qn demo_ID_simps(1) demo_ID_simps(2) r t h']
  have 3: "fst (Server_Read demo_Server no_operator_Authorizer empty_AuthorizerContext
     (demo_Request TypeV2Artist ''default'' ''default'' None)) =
     [(EventualConsistency, demo_ID TypeV2Artist ''default'' ''default'')]"
    by (simp add: demo_Request_simps)
  from 1 2 have 4: "Server_Read demo_Server no_operator_Authorizer empty_AuthorizerContext
     (demo_Request TypeV2Artist ''default'' ''default'' (Some StrongConsistency)) =
     ([(StrongConsistency, demo_ID TypeV2Artist ''default'' ''default'')],
      Inl (Status Unavailable ''no leader''))"
    by (simp add: prod_eq_iff)
  from qs r t h 3 4 show ?thesis
    by (simp add: demo_ID_simps)
qed

text \<open>
  C8. For every valid type key, \<^verbatim>\<open>ParseGVK\<close> applied to \<^verbatim>\<open>ToGVK\<close> of the key returns the
  same key, and \<^verbatim>\<open>ToGVK\<close> of (demo, v2, Artist) is \<^verbatim>\<open>demo.v2.Artist\<close>. \<^verbatim>\<open>ParseGVK\<close> returns
  an error exactly when its input does not split into three parts at the dots, that is
  when it does not hold exactly two dots; with two dots it returns the three segments as
  they are, empty or not, as on the input \<^verbatim>\<open>..\<close>.
\<close>

theorem ParseGVK_roundtrip:
  "(valid_Type typ \<longrightarrow> ParseGVK (ToGVK typ) = Inr typ) \<and>
   ToGVK \<lparr>Group = ''demo'', GroupVersion = ''v2'', Kind = ''Artist''\<rparr> = ''demo.v2.Artist'' \<and>
   ((\<exists>e. ParseGVK gvk = Inl e) \<longleftrightarrow> count_list gvk CHR ''.'' \<noteq> 2) \<and>
   (count_list gvk CHR ''.'' = 2 \<longrightarrow>
      ParseGVK gvk = Inr \<lparr>Group = Split CHR ''.'' gvk ! 0, GroupVersion = Split CHR ''.'' gvk ! 1,
                          Kind = Split CHR ''.'' gvk ! 2\<rparr>) \<and>
   ParseGVK ''..'' = Inr \<lparr>Group = [], GroupVersion = [], Kind = []\<rparr>"
proof -
  have a: "valid_Type typ \<longrightarrow> ParseGVK (ToGVK typ) = Inr typ"
    by (simp add: ParseGVK_ToGVK)
  have b: "ToGVK \<lparr>Group = ''demo'', GroupVersion = ''v2'', Kind = ''Artist''\<rparr> = ''demo.v2.Artist''"
    by (simp add: ToGVK_def)
  have n: "length (Split CHR ''.'' gvk) = 3 \<longleftrightarrow> count_list gvk CHR ''.'' = 2"
    by (simp add: length_Split)
  have c: "(\<exists>e. ParseGVK gvk = Inl e) \<longleftrightarrow> count_list gvk CHR ''.'' \<noteq> 2"
    using n by (simp add: ParseGVK_def Let_def)
  have d: "count_list gvk CHR ''.'' = 2 \<longrightarrow>
      ParseGVK gvk = Inr \<lparr>Group = Split CHR ''.'' gvk ! 0, GroupVersion = Split CHR ''.'' gvk ! 1,
                          Kind = Split CHR ''.'' gvk ! 2\<rparr>"
    using n by (simp add: ParseGVK_def Let_def)
  have e: "ParseGVK ''..'' = Inr \<lparr>Group = [], GroupVersion = [], Kind = []\<rparr>"
    by (simp add: ParseGVK_def Split.simps)
  from a b c d e show ?thesis by blast
qed

theorem ParseGVK_roundtrip_witness:
  "valid_Type TypeV2Artist \<and> ParseGVK (ToGVK TypeV2Artist) = Inr TypeV2Artist \<and>
   count_list ''demo.v2.Artist'' CHR ''.'' = 2 \<and>
   ParseGVK ''demo.v2.Artist'' = Inr \<lparr>Group = ''demo'', GroupVersion = ''v2'', Kind = ''Artist''\<rparr> \<and>
   count_list ''demo.Artist'' CHR ''.'' \<noteq> 2 \<and> (\<exists>e. ParseGVK ''demo.Artist'' = Inl e)"
proof -
  have v: "valid_Type TypeV2Artist"
    by (rule valid_examples)
  have c: "count_list ''demo.v2.Artist'' CHR ''.'' = 2"
    by simp
  have s: "Split CHR ''.'' ''demo.v2.Artist'' = [''demo'', ''v2'', ''Artist'']"
    by (simp add: Split.simps)
  have c': "count_list ''demo.Artist'' CHR ''.'' \<noteq> 2"
    by simp
  from ParseGVK_roundtrip [of TypeV2Artist "''demo.v2.Artist''"] v c s
  have 1: "ParseGVK (ToGVK TypeV2Artist) = Inr TypeV2Artist"
    and 2: "ParseGVK ''demo.v2.Artist'' = Inr \<lparr>Group = ''demo'', GroupVersion = ''v2'', Kind = ''Artist''\<rparr>"
    by simp_all
  from ParseGVK_roundtrip [of TypeV2Artist "''demo.Artist''"] c'
  have 3: "\<exists>e. ParseGVK ''demo.Artist'' = Inl e"
    by blast
  from v c c' 1 2 3 show ?thesis by blast
qed

text \<open>
  C9. In the registry that \<^verbatim>\<open>NewRegistry\<close> returns and in every registry reached from it
  by successful \<^verbatim>\<open>Register\<close> calls, every registration that \<^verbatim>\<open>Types\<close> lists or
  \<^verbatim>\<open>Resolve\<close> finds has its read, write and list hooks and its validation and mutation
  hooks. What a successful \<^verbatim>\<open>Register\<close> stores is the registration it was given with
  each missing hook replaced by its default.
\<close>

theorem hooks_never_nil:
  assumes "NewRegistry tomb = Inr r0" and "RegisterAll r0 regs = Inr r"
  shows "(\<forall>reg \<in> set (Types r). hooks_set reg) \<and>
         (\<forall>typ reg. Resolve r typ = (reg, True) \<longrightarrow> hooks_set reg) \<and>
         (\<forall>registration typ r'. Register r registration = Inr r' \<and> Type registration = Some typ \<longrightarrow>
            Resolve r' typ = (with_defaults registration, True) \<and>
            hooks_set (with_defaults registration))"
proof (intro conjI ballI allI impI)
  have inv: "registry_inv r"
    using assms by (rule reachable_inv)
  {
    fix reg
    assume "reg \<in> set (Types r)"
    with inv_member [OF inv] show "hooks_set reg" by blast
  }
  {
    fix t reg
    assume "Resolve r t = (reg, True)"
    then have "map_of (registrations r) (ToGVK t) = Some reg"
      by (rule Resolve_TrueD)
    with inv_lookup [OF inv] show "hooks_set reg" by blast
  }
  {
    fix registration t r'
    assume "Register r registration = Inr r' \<and> Type registration = Some t"
    then show "Resolve r' t = (with_defaults registration, True)"
      by (blast intro: Register_Resolve)
    show "hooks_set (with_defaults registration)"
      by (rule hooks_set_with_defaults)
  }
qed

theorem hooks_never_nil_witness:
  "NewRegistry tombstone_Type = Inr example_registry \<and>
   RegisterAll example_registry [] = Inr example_registry \<and>
   list_all hooks_set (Types example_registry) \<and>
   Resolve example_registry tombstone_Type = (tombstone_Registration tombstone_Type, True) \<and>
   hooks_set (tombstone_Registration tombstone_Type) \<and>
   Register example_registry (bare_Registration TypeV2Artist ScopeNamespace) =
     Inr (example_registry\<lparr>registrations :=
            AList.update ''demo.v2.Artist'' (with_defaults (bare_Registration TypeV2Artist ScopeNamespace))
              (registrations example_registry)\<rparr>) \<and>
   Type (bare_Registration TypeV2Artist ScopeNamespace) = Some TypeV2Artist \<and>
   hooks_set (with_defaults (bare_Registration TypeV2Artist ScopeNamespace))"
proof -
  have n: "NewRegistry tombstone_Type = Inr example_registry"
    by (rule NewRegistry_example)
  have a: "RegisterAll example_registry [] = Inr example_registry"
    by simp
  have r: "Resolve example_registry tombstone_Type = (tombstone_Registration tombstone_Type, True)"
    by (simp add: Resolve_def example_registry_def ToGVK_examples)
  have t: "Type (bare_Registration TypeV2Artist ScopeNamespace) = Some TypeV2Artist"
    by (simp add: bare_Registration_def)
  note g = Register_example_Artist
  from hooks_never_nil [OF n a] r t g
  have "(\<forall>reg \<in> set (Types example_registry). hooks_set reg) \<and>
    hooks_set (tombstone_Registration tombstone_Type) \<and>
    hooks_set (with_defaults (bare_Registration TypeV2Artist ScopeNamespace))"
    by blast
  with n a r t g show ?thesis
    by (simp add: list_all_iff)
qed

text \<open>
  C10, as amended. For every registration whose group matches its pattern, whose group
  version does not, and whose group version and kind are not empty, \<^verbatim>\<open>Register\<close> panics
  with the group-version message, and the value the format string receives is the
  group, not the group version.
\<close>

theorem GroupVersion_panic_names_Group:
  assumes "Type reg = Some typ"
    and "MatchString groupRegexp (Group typ)"
    and "\<not> MatchString groupVersionRegexp (GroupVersion typ)"
    and "GroupVersion typ \<noteq> []" and "Kind typ \<noteq> []"
  shows "Register r reg =
    Inl (PanicSprintf
      ''Type.GroupVersion must be lowercase, start with `v`, and end with a number (e.g. `v2` or `v1alpha1`). Got: %q''
      [Group typ])"
proof -
  from assms(2) have "Group typ \<noteq> []"
    using not_match_empty(1) by auto
  with assms show ?thesis
    by (simp add: Register_def)
qed

theorem GroupVersion_panic_names_Group_witness:
  "Type (bare_Registration \<lparr>Group = ''demo'', GroupVersion = ''2'', Kind = ''Artist''\<rparr> ScopeNamespace) =
     Some \<lparr>Group = ''demo'', GroupVersion = ''2'', Kind = ''Artist''\<rparr> \<and>
   MatchString groupRegexp ''demo'' \<and> \<not> MatchString groupVersionRegexp ''2'' \<and>
   Register example_registry
     (bare_Registration \<lparr>Group = ''demo'', GroupVersion = ''2'', Kind = ''Artist''\<rparr> ScopeNamespace) =
    Inl (PanicSprintf
      ''Type.GroupVersion must be lowercase, start with `v`, and end with a number (e.g. `v2` or `v1alpha1`). Got: %q''
      [''demo''])"
proof -
  have t: "Type (bare_Registration \<lparr>Group = ''demo'', GroupVersion = ''2'', Kind = ''Artist''\<rparr> ScopeNamespace) =
     Some \<lparr>Group = ''demo'', GroupVersion = ''2'', Kind = ''Artist''\<rparr>"
    by (simp add: bare_Registration_def)
  have g: "MatchString groupRegexp ''demo''"
    by (simp add: regexp_defs)
  have v: "\<not> MatchString groupVersionRegexp ''2''"
    by (simp add: regexp_defs)
  from GroupVersion_panic_names_Group [OF t, of example_registry] g v
  have "Register example_registry
     (bare_Registration \<lparr>Group = ''demo'', GroupVersion = ''2'', Kind = ''Artist''\<rparr> ScopeNamespace) =
    Inl (PanicSprintf
      ''Type.GroupVersion must be lowercase, start with `v`, and end with a number (e.g. `v2` or `v1alpha1`). Got: %q''
      [''demo''])"
    by simp
  with t g v show ?thesis by blast
qed

text \<open>
  C10 as stated fails where the group version or the kind is empty: the group matches,
  the group version does not, and the panic is the one of the empty-field check, which
  interpolates nothing.
\<close>

theorem GroupVersion_panic_counterexample:
  "MatchString groupRegexp ''demo'' \<and> \<not> MatchString groupVersionRegexp [] \<and>
   Register example_registry
     (bare_Registration \<lparr>Group = ''demo'', GroupVersion = [], Kind = ''Artist''\<rparr> ScopeNamespace) =
     Inl (Panic ''type field(s) cannot be empty'') \<and>
   \<not> MatchString groupVersionRegexp ''2'' \<and>
   Register example_registry
     (bare_Registration \<lparr>Group = ''demo'', GroupVersion = ''2'', Kind = []\<rparr> ScopeNamespace) =
     Inl (Panic ''type field(s) cannot be empty'')"
  by (simp add: regexp_defs Register_def bare_Registration_def)

section \<open>Further properties\<close>

text \<open>
  X1. Syntax enforcement on the examples of the spec: on the registry that \<^verbatim>\<open>NewRegistry\<close>
  returns, the group \<^verbatim>\<open>Bad\<close>, the group version \<^verbatim>\<open>2\<close> and the kind \<^verbatim>\<open>bad\<close> each make
  \<^verbatim>\<open>Register\<close> panic with the message of their check, (demo, v2, Artist) is registered
  with the default hooks, and the tombstone type key panics as already registered. The
  patterns accept \<^verbatim>\<open>v1alpha1\<close>, \<^verbatim>\<open>snake_case1\<close> and \<^verbatim>\<open>V2Artist\<close> and refuse
  \<^verbatim>\<open>v1alpha\<close>, \<^verbatim>\<open>V1\<close>, a one-letter group, \<^verbatim>\<open>kebab-case\<close> and \<^verbatim>\<open>Snake_Case\<close>.
\<close>

theorem Register_syntax_enforcement:
  "Register example_registry
     (bare_Registration \<lparr>Group = ''Bad'', GroupVersion = ''v2'', Kind = ''Artist''\<rparr> ScopeNamespace) =
     Inl (PanicSprintf ''Type.Group must be in snake_case. Got: %q'' [''Bad'']) \<and>
   Register example_registry
     (bare_Registration \<lparr>Group = ''demo'', GroupVersion = ''2'', Kind = ''Artist''\<rparr> ScopeNamespace) =
     Inl (PanicSprintf
       ''Type.GroupVersion must be lowercase, start with `v`, and end with a number (e.g. `v2` or `v1alpha1`). Got: %q''
       [''demo'']) \<and>
   Register example_registry
     (bare_Registration \<lparr>Group = ''demo'', GroupVersion = ''v2'', Kind = ''bad''\<rparr> ScopeNamespace) =
     Inl (PanicSprintf ''Type.Kind must be in PascalCase. Got: %q'' [''bad'']) \<and>
   Register example_registry
     (bare_Registration \<lparr>Group = ''demo'', GroupVersion = ''v2'', Kind = ''Artist''\<rparr> ScopeNamespace) =
     Inr \<lparr>registrations =
           [(''internal.v1.Tombstone'', tombstone_Registration tombstone_Type),
            (''demo.v2.Artist'',
             \<lparr>Type = Some \<lparr>Group = ''demo'', GroupVersion = ''v2'', Kind = ''Artist''\<rparr>,
              Proto = None,
              ACLs = Some \<lparr>Read = Some default_Read, Write = Some default_Write,
                            List = Some default_List\<rparr>,
              Validate = Some default_Validate, Mutate = Some default_Mutate,
              Scope = ScopeNamespace\<rparr>)]\<rparr> \<and>
   Register example_registry
     (bare_Registration \<lparr>Group = ''internal'', GroupVersion = ''v1'', Kind = ''Tombstone''\<rparr> ScopeNamespace) =
     Inl (PanicSprintf ''resource type %s already registered'' [''internal.v1.Tombstone'']) \<and>
   MatchString groupVersionRegexp ''v1alpha1'' \<and> \<not> MatchString groupVersionRegexp ''v1alpha'' \<and>
   \<not> MatchString groupVersionRegexp ''V1'' \<and> \<not> MatchString groupRegexp ''d'' \<and>
   MatchString groupRegexp ''snake_case1'' \<and> \<not> MatchString groupRegexp ''kebab-case'' \<and>
   \<not> MatchString kindRegexp ''Snake_Case'' \<and> MatchString kindRegexp ''V2Artist''"
  by (simp add: Register_def bare_Registration_def example_registry_def regexp_defs ToGVK_def
      Let_def)

end
